theory Spec2Isabelle
  imports Main "HOL-Library.Sublist" "HOL-Library.Multiset" "HOL-Library.AList"
begin

section \<open>Python values and errors\<close>

text \<open>
  The program handles decoded JSON: \<^verbatim>\<open>None\<close>, booleans, integers, strings, lists and
  dictionaries with string keys. A dictionary is an association list whose keys are
  distinct; \<open>map_of\<close> is the lookup. Non-integral JSON numbers are not modelled: no
  branch of the functions below inspects a number.
\<close>

datatype pyval =
    PNone
  | PBool bool
  | PInt int
  | PStr string
  | PList "pyval list"
  | PDict "(string \<times> pyval) list"

text \<open>Every exception the modelled functions can raise is a value of this type.\<close>

datatype error =
    TypeError
  | AttributeError
  | AssertionError
  | KeyError
  | ValueError
  | ReError
  | JSONDecodeError
  | TransportError
  | Nexus3CtlException string

text \<open>Python's \<^verbatim>\<open>==\<close> on decoded JSON: \<^verbatim>\<open>True == 1\<close>, lists compare element by element,
  dictionaries compare by key, whatever the order of insertion.\<close>

fun py_eq :: "pyval \<Rightarrow> pyval \<Rightarrow> bool" where
  "py_eq PNone PNone = True"
| "py_eq (PBool a) (PBool b) = (a = b)"
| "py_eq (PBool a) (PInt n) = (n = (if a then 1 else 0))"
| "py_eq (PInt n) (PBool a) = (n = (if a then 1 else 0))"
| "py_eq (PInt a) (PInt b) = (a = b)"
| "py_eq (PStr a) (PStr b) = (a = b)"
| "py_eq (PList xs) (PList ys) = list_all2 py_eq xs ys"
| "py_eq (PDict xs) (PDict ys) =
     (length xs = length ys \<and>
      list_all (\<lambda>(k, v). list_ex (\<lambda>(k', w). k' = k \<and> py_eq v w) ys) xs)"
| "py_eq _ _ = False"

text \<open>Truthiness, as \<^verbatim>\<open>if x:\<close> and \<^verbatim>\<open>x or y\<close> read it.\<close>

fun py_truthy :: "pyval \<Rightarrow> bool" where
  "py_truthy PNone = False"
| "py_truthy (PBool b) = b"
| "py_truthy (PInt n) = (n \<noteq> 0)"
| "py_truthy (PStr s) = (s \<noteq> [])"
| "py_truthy (PList xs) = (xs \<noteq> [])"
| "py_truthy (PDict kvs) = (kvs \<noteq> [])"

text \<open>\<^verbatim>\<open>item.get(key)\<close>: only a dictionary has the method; a missing key gives \<^verbatim>\<open>None\<close>.\<close>

definition py_dict_get :: "pyval \<Rightarrow> string \<Rightarrow> error + pyval" where
  "py_dict_get item key =
     (case item of
        PDict kvs \<Rightarrow> Inr (case map_of kvs key of None \<Rightarrow> PNone | Some v \<Rightarrow> v)
      | _ \<Rightarrow> Inl AttributeError)"

text \<open>\<^verbatim>\<open>item.get(key, dflt)\<close>.\<close>

definition py_dict_get_default :: "pyval \<Rightarrow> string \<Rightarrow> pyval \<Rightarrow> error + pyval" where
  "py_dict_get_default item key dflt =
     (case item of
        PDict kvs \<Rightarrow> Inr (case map_of kvs key of None \<Rightarrow> dflt | Some v \<Rightarrow> v)
      | _ \<Rightarrow> Inl AttributeError)"

text \<open>\<^verbatim>\<open>limit in value\<close>: substring of a string, member of a list, key of a dictionary;
  anything else is not iterable.\<close>

definition py_in :: "string \<Rightarrow> pyval \<Rightarrow> error + bool" where
  "py_in limit v =
     (case v of
        PStr s \<Rightarrow> Inr (sublist limit s)
      | PList xs \<Rightarrow> Inr (list_ex (\<lambda>x. py_eq x (PStr limit)) xs)
      | PDict kvs \<Rightarrow> Inr (limit \<in> set (map fst kvs))
      | _ \<Rightarrow> Inl TypeError)"

text \<open>\<^verbatim>\<open>value.startswith(limit)\<close> and \<^verbatim>\<open>value.endswith(limit)\<close>: methods of strings only.\<close>

definition py_startswith :: "pyval \<Rightarrow> string \<Rightarrow> error + bool" where
  "py_startswith v limit =
     (case v of PStr s \<Rightarrow> Inr (prefix limit s) | _ \<Rightarrow> Inl AttributeError)"

definition py_endswith :: "pyval \<Rightarrow> string \<Rightarrow> error + bool" where
  "py_endswith v limit =
     (case v of PStr s \<Rightarrow> Inr (suffix limit s) | _ \<Rightarrow> Inl AttributeError)"

text \<open>
  \<^verbatim>\<open>re.match(limit, value)\<close>. The regular expression library is a parameter: \<open>rc limit\<close>
  is \<open>None\<close> when the pattern does not compile, and otherwise the compiled pattern's
  test "matches at the start of". The pattern is compiled before the subject is looked
  at, and a subject that is not a string is a \<^verbatim>\<open>TypeError\<close>.
\<close>

type_synonym regex_lib = "string \<Rightarrow> (string \<Rightarrow> bool) option"

definition py_re_match :: "regex_lib \<Rightarrow> string \<Rightarrow> pyval \<Rightarrow> error + bool" where
  "py_re_match rc limit v =
     (case rc limit of
        None \<Rightarrow> Inl ReError
      | Some m \<Rightarrow> (case v of PStr s \<Rightarrow> Inr (m s) | _ \<Rightarrow> Inl TypeError))"

text \<open>\<^verbatim>\<open>s.split(sep)\<close> for a separator string: an empty separator is a \<^verbatim>\<open>ValueError\<close>;
  otherwise the string is cut at each occurrence of the separator, scanning from the
  left. \<open>skip\<close> counts the characters of a separator still to be passed over.\<close>

fun split_go :: "string \<Rightarrow> nat \<Rightarrow> string \<Rightarrow> string \<Rightarrow> string list" where
  "split_go sep skip cur [] = [cur]"
| "split_go sep skip cur (c # cs) =
     (if 0 < skip then split_go sep (skip - 1) cur cs
      else if prefix sep (c # cs) then cur # split_go sep (length sep - 1) [] cs
      else split_go sep 0 (cur @ [c]) cs)"

definition py_split :: "string \<Rightarrow> string \<Rightarrow> error + string list" where
  "py_split s sep = (if sep = [] then Inl ValueError else Inr (split_go sep 0 [] s))"

text \<open>\<^verbatim>\<open>sep.join(xs)\<close>.\<close>

fun py_join :: "string \<Rightarrow> string list \<Rightarrow> string" where
  "py_join sep [] = []"
| "py_join sep [x] = x"
| "py_join sep (x # y # ys) = x @ sep @ py_join sep (y # ys)"

text \<open>A list comprehension with a condition that can raise: the first exception, in the
  order of the list, ends it.\<close>

fun filterE :: "('a \<Rightarrow> error + bool) \<Rightarrow> 'a list \<Rightarrow> error + 'a list" where
  "filterE p [] = Inr []"
| "filterE p (x # xs) =
     (case p x of
        Inl e \<Rightarrow> Inl e
      | Inr b \<Rightarrow>
          (case filterE p xs of
             Inl e \<Rightarrow> Inl e
           | Inr ys \<Rightarrow> Inr (if b then x # ys else ys)))"

section \<open>The selector: \<^verbatim>\<open>limit_reduce\<close>\<close>

text \<open>The enumeration \<^verbatim>\<open>LimitSelect\<close>; its members are strings and compare as such.\<close>

definition LimitSelect_list :: "string list" where
  "LimitSelect_list = [''exact'', ''contains'', ''startswith'', ''endswith'', ''regex'']"

text \<open>The \<^verbatim>\<open>limits\<close> argument: \<^verbatim>\<open>None\<close>, a string to split, or a list of rules.\<close>

datatype limits_arg = LimNone | LimStr string | LimList "string list"

text \<open>\<^verbatim>\<open>select or LimitSelect.EXACT\<close>.\<close>

definition select_or_exact :: "string option \<Rightarrow> string" where
  "select_or_exact select =
     (case select of None \<Rightarrow> ''exact'' | Some s \<Rightarrow> if s = [] then ''exact'' else s)"

text \<open>\<^verbatim>\<open>limits.split(sep) if isinstance(limits, str) else limits\<close>; \<^verbatim>\<open>None\<close> is read as the
  empty list, since the only use of it is the test \<^verbatim>\<open>not limits\<close>.\<close>

definition split_limits :: "limits_arg \<Rightarrow> string \<Rightarrow> error + string list" where
  "split_limits limits sep =
     (case limits of
        LimNone \<Rightarrow> Inr []
      | LimStr s \<Rightarrow> py_split s sep
      | LimList ls \<Rightarrow> Inr ls)"

definition unsupported_mode :: "string \<Rightarrow> error" where
  "unsupported_mode select =
     Nexus3CtlException
       (''Unsupported mode '' @ [CHR 0x27] @ select @ [CHR 0x27] @
        '', please choose one of: '' @ py_join '','' LimitSelect_list)"

text \<open>The test of one item under one rule, for each of the five strategies.\<close>

definition item_test ::
  "(pyval \<Rightarrow> error + bool) \<Rightarrow> string \<Rightarrow> pyval \<Rightarrow> error + bool" where
  "item_test t key item =
     (case py_dict_get item key of Inl e \<Rightarrow> Inl e | Inr v \<Rightarrow> t v)"

text \<open>The \<^verbatim>\<open>if/elif\<close> chain of the loop body: the items of \<open>config\<close> that match one rule.\<close>

definition matched_items ::
  "regex_lib \<Rightarrow> string \<Rightarrow> string \<Rightarrow> string \<Rightarrow> pyval list \<Rightarrow> error + pyval list" where
  "matched_items rc select key limit config =
     (if select = ''exact'' then
        filterE (item_test (\<lambda>v. Inr (py_eq v (PStr limit))) key) config
      else if select = ''contains'' then
        filterE (item_test (\<lambda>v. py_in limit v) key) config
      else if select = ''startswith'' then
        filterE (item_test (\<lambda>v. py_startswith v limit) key) config
      else if select = ''endswith'' then
        filterE (item_test (\<lambda>v. py_endswith v limit) key) config
      else if select = ''regex'' then
        filterE (item_test (\<lambda>v. py_re_match rc limit v) key) config
      else Inl (unsupported_mode select))"

text \<open>The inner loop: a match is appended unless the output already holds an item with
  an equal key field.\<close>

fun add_matches :: "string \<Rightarrow> pyval list \<Rightarrow> pyval list \<Rightarrow> error + pyval list" where
  "add_matches key out [] = Inr out"
| "add_matches key out (m # ms) =
     (case py_dict_get m key of
        Inl e \<Rightarrow> Inl e
      | Inr ident \<Rightarrow>
          (case filterE (item_test (\<lambda>v. Inr (py_eq v ident)) key) out of
             Inl e \<Rightarrow> Inl e
           | Inr existing \<Rightarrow>
               add_matches key (if existing = [] then out @ [m] else out) ms))"

text \<open>The outer loop over the rules.\<close>

fun reduce_loop ::
  "regex_lib \<Rightarrow> string \<Rightarrow> string \<Rightarrow> pyval list \<Rightarrow> pyval list \<Rightarrow> string list
     \<Rightarrow> error + pyval list" where
  "reduce_loop rc select key config out [] = Inr out"
| "reduce_loop rc select key config out (limit # limits) =
     (case matched_items rc select key limit config of
        Inl e \<Rightarrow> Inl e
      | Inr matched \<Rightarrow>
          (case add_matches key out matched of
             Inl e \<Rightarrow> Inl e
           | Inr out' \<Rightarrow> reduce_loop rc select key config out' limits))"

definition limit_reduce ::
  "regex_lib \<Rightarrow> pyval \<Rightarrow> string \<Rightarrow> limits_arg \<Rightarrow> string \<Rightarrow> string option
     \<Rightarrow> error + pyval list" where
  "limit_reduce rc config key limits sep select =
     (case split_limits limits sep of
        Inl e \<Rightarrow> Inl e
      | Inr lims \<Rightarrow>
          (case config of
             PList items \<Rightarrow>
               if lims = [] then Inr items
               else reduce_loop rc (select_or_exact select) key items [] lims
           | _ \<Rightarrow> Inl AssertionError))"

section \<open>The toggle-list resolver: \<^verbatim>\<open>control_list\<close>\<close>

text \<open>The \<^verbatim>\<open>config\<close> argument: a string to split, a list of tokens, or anything else
  (which fails the assertion).\<close>

datatype config_arg = CfgStr string | CfgList "string list" | CfgOther

text \<open>
  The loop assigns \<^verbatim>\<open>out = defaults\<close> on the token \<^verbatim>\<open>ALL\<close>: from then on \<^verbatim>\<open>out\<close> and
  \<^verbatim>\<open>defaults\<close> are one list object, and \<^verbatim>\<open>out.append\<close> and \<^verbatim>\<open>out.remove\<close> change both.
  The state of the loop is therefore the contents of the \<^verbatim>\<open>defaults\<close> object together
  with what \<^verbatim>\<open>out\<close> refers to: that same object (\<open>Shared\<close>) or a list of its own.
\<close>

datatype out_ref = Shared | Own "string list"

type_synonym control_state = "string list \<times> out_ref"

fun out_value :: "control_state \<Rightarrow> string list" where
  "out_value (d, Shared) = d"
| "out_value (d, Own xs) = xs"

fun out_append :: "string \<Rightarrow> control_state \<Rightarrow> control_state" where
  "out_append name (d, Shared) = (d @ [name], Shared)"
| "out_append name (d, Own xs) = (d, Own (xs @ [name]))"

fun out_remove :: "string \<Rightarrow> control_state \<Rightarrow> control_state" where
  "out_remove name (d, Shared) = (remove1 name d, Shared)"
| "out_remove name (d, Own xs) = (d, Own (remove1 name xs))"

text \<open>One pass of the loop body, for the token \<open>conf\<close>.\<close>

definition control_step :: "string \<Rightarrow> control_state \<Rightarrow> control_state" where
  "control_step conf st =
     (if conf = [] then st
      else
        let name = (if prefix ''-'' conf then tl conf
                    else if prefix ''+'' conf then tl conf else conf);
            action = (if prefix ''-'' conf then ''remove'' else ''add'')
        in if conf = ''ALL'' then (fst st, Shared)
           else if conf = ''NONE'' then (fst st, Own [])
           else if action = ''add'' then
             (if name \<notin> set (out_value st) then out_append name st else st)
           else
             (if name \<in> set (out_value st) then out_remove name st else st))"

text \<open>\<^verbatim>\<open>if default is not None and default not in config: config.insert(0, default)\<close>.\<close>

definition insert_default :: "string option \<Rightarrow> string list \<Rightarrow> string list" where
  "insert_default dflt config =
     (case dflt of
        None \<Rightarrow> config
      | Some t \<Rightarrow> if t \<notin> set config then t # config else config)"

text \<open>
  What a call leaves behind: the returned collection (\<^verbatim>\<open>list(set(out))\<close>, a list in no
  particular order, read as a set), the caller's \<^verbatim>\<open>defaults\<close> list after the call, and
  the token list after the insertion (the caller's own list when \<^verbatim>\<open>config\<close> was a list).
\<close>

record control_result =
  result :: "string set"
  defaults_after :: "string list option"
  tokens :: "string list"

text \<open>\<^verbatim>\<open>defaults = defaults or []\<close> keeps the caller's list object unless it is \<^verbatim>\<open>None\<close> or
  empty; in those two cases the function works on a fresh list and the caller's argument
  stays as it was.\<close>

definition control_list ::
  "config_arg \<Rightarrow> string list option \<Rightarrow> string \<Rightarrow> string option
     \<Rightarrow> error + control_result" where
  "control_list config defaults delim dflt =
     (case (case config of
              CfgStr s \<Rightarrow> py_split s delim
            | CfgList xs \<Rightarrow> Inr xs
            | CfgOther \<Rightarrow> Inl AssertionError) of
        Inl e \<Rightarrow> Inl e
      | Inr toks \<Rightarrow>
          let d0 = (case defaults of None \<Rightarrow> [] | Some ds \<Rightarrow> ds);
              toks' = insert_default dflt toks;
              st = fold control_step toks' (d0, Own [])
          in Inr \<lparr> result = set (out_value st),
                   defaults_after =
                     (case defaults of
                        None \<Rightarrow> None
                      | Some ds \<Rightarrow> if ds = [] then Some [] else Some (fst st)),
                   tokens = toks' \<rparr>)"

section \<open>Import ordering\<close>

text \<open>\<^verbatim>\<open>nexus_sort_repos\<close>: the sort key of a repository file, by substring search on its
  name.\<close>

definition nexus_sort_repos :: "string \<Rightarrow> nat" where
  "nexus_sort_repos file_name =
     (if sublist ''hosted'' file_name then 1
      else if sublist ''proxy'' file_name then 2
      else 3)"

text \<open>\<^verbatim>\<open>len(x)\<close>: strings, lists and dictionaries have a length.\<close>

definition py_len :: "pyval \<Rightarrow> error + nat" where
  "py_len v =
     (case v of
        PStr s \<Rightarrow> Inr (length s)
      | PList xs \<Rightarrow> Inr (length xs)
      | PDict kvs \<Rightarrow> Inr (length kvs)
      | _ \<Rightarrow> Inl TypeError)"

text \<open>\<^verbatim>\<open>nexus_sort_roles\<close>: the sort key of a role.\<close>

definition nexus_sort_roles :: "pyval \<Rightarrow> error + nat" where
  "nexus_sort_roles item =
     (case py_dict_get_default item ''roles'' (PList []) of
        Inl e \<Rightarrow> Inl e
      | Inr roles \<Rightarrow>
          (case py_dict_get_default item ''privileges'' (PList []) of
             Inl e \<Rightarrow> Inl e
           | Inr privileges \<Rightarrow>
               (case py_len roles of
                  Inl e \<Rightarrow> Inl e
                | Inr a \<Rightarrow>
                    (case py_len privileges of
                       Inl e \<Rightarrow> Inl e
                     | Inr b \<Rightarrow> Inr (a * 3 + b)))))"

fun mapE :: "('a \<Rightarrow> error + 'b) \<Rightarrow> 'a list \<Rightarrow> error + 'b list" where
  "mapE f [] = Inr []"
| "mapE f (x # xs) =
     (case f x of
        Inl e \<Rightarrow> Inl e
      | Inr y \<Rightarrow> (case mapE f xs of Inl e \<Rightarrow> Inl e | Inr ys \<Rightarrow> Inr (y # ys)))"

text \<open>\<^verbatim>\<open>sorted(xs, key=f)\<close>: the keys are computed once, in the order of the list (the first
  exception ends the call), and the sort is stable.\<close>

definition py_sorted :: "('a \<Rightarrow> error + nat) \<Rightarrow> 'a list \<Rightarrow> error + 'a list" where
  "py_sorted f xs =
     (case mapE f xs of
        Inl e \<Rightarrow> Inl e
      | Inr ks \<Rightarrow> Inr (map snd (sort_key fst (zip ks xs))))"

text \<open>The two orders the importers use (\<^verbatim>\<open>cli_import_repos\<close>, \<^verbatim>\<open>cli_import_roles\<close>).\<close>

definition repos_import_order :: "string list \<Rightarrow> string list" where
  "repos_import_order files = sort_key nexus_sort_repos files"

definition roles_import_order ::
  "(string \<times> pyval) list list \<Rightarrow> error + (string \<times> pyval) list list" where
  "roles_import_order items = py_sorted (\<lambda>item. nexus_sort_roles (PDict item)) items"

section \<open>The transport and the \<^verbatim>\<open>Nexus3Ctl\<close> object\<close>

text \<open>The fields of \<^verbatim>\<open>Nexus3Ctl\<close> that the operations below read.\<close>

record nexus3ctl =
  api_url :: string
  dry_mode :: bool

text \<open>
  A call that really goes out through \<^verbatim>\<open>requests\<close>: its verb, its URL and, for
  \<^verbatim>\<open>PUT\<close> and \<^verbatim>\<open>POST\<close>, the payload (before \<^verbatim>\<open>json.dumps\<close>).
\<close>

record request =
  req_method :: string
  req_url :: string
  req_data :: "pyval option"

text \<open>A response: its status code and what \<^verbatim>\<open>response.json()\<close> gives or raises.\<close>

record response =
  status_code :: int
  json_body :: "error + pyval"

text \<open>\<^verbatim>\<open>FakeResponse(status_code)\<close>: a status code and nothing else.\<close>

definition FakeResponse :: "int \<Rightarrow> response" where
  "FakeResponse code = \<lparr> status_code = code, json_body = Inl AttributeError \<rparr>"

text \<open>
  The remote server and the network are a parameter: the answer to a call, which may
  depend on the calls issued before it and may be an exception of the transport.
\<close>

type_synonym transport = "request list \<Rightarrow> request \<Rightarrow> error + response"

text \<open>
  An operation takes the list of calls issued so far and returns its value, or the
  exception it raised, with the list extended by the calls it issued.
\<close>

type_synonym 'a op = "request list \<Rightarrow> (error + 'a) \<times> request list"

definition return_op :: "'a \<Rightarrow> 'a op" where
  "return_op x trace = (Inr x, trace)"

definition raise_op :: "error \<Rightarrow> 'a op" where
  "raise_op e trace = (Inl e, trace)"

definition bind_op :: "'a op \<Rightarrow> ('a \<Rightarrow> 'b op) \<Rightarrow> 'b op" where
  "bind_op m f trace =
     (case m trace of
        (Inl e, trace') \<Rightarrow> (Inl e, trace')
      | (Inr x, trace') \<Rightarrow> f x trace')"

definition lift_op :: "error + 'a \<Rightarrow> 'a op" where
  "lift_op r = (case r of Inl e \<Rightarrow> raise_op e | Inr x \<Rightarrow> return_op x)"

text \<open>A \<^verbatim>\<open>for\<close> loop whose body is an operation.\<close>

fun for_each :: "('a \<Rightarrow> 'b op) \<Rightarrow> 'a list \<Rightarrow> 'b list op" where
  "for_each f [] = return_op []"
| "for_each f (x # xs) =
     bind_op (f x) (\<lambda>y. bind_op (for_each f xs) (\<lambda>ys. return_op (y # ys)))"

text \<open>A call through \<^verbatim>\<open>requests\<close>: it is issued, and recorded, whatever comes back.\<close>

definition issue :: "transport \<Rightarrow> request \<Rightarrow> response op" where
  "issue net req trace = (net trace req, trace @ [req])"

text \<open>The check that ends \<^verbatim>\<open>api_client\<close>.\<close>

definition check_401 :: "response \<Rightarrow> response op" where
  "check_401 out =
     (if status_code out = 401
      then raise_op (Nexus3CtlException ''Could not authenticate against API, got 401'')
      else return_op out)"

text \<open>\<^verbatim>\<open>api_client(url_path, method, data, dry)\<close>. The argument \<open>dry\<close> is \<open>None\<close> unless the
  caller passes a boolean.\<close>

definition api_client ::
  "transport \<Rightarrow> nexus3ctl \<Rightarrow> string \<Rightarrow> string \<Rightarrow> pyval option \<Rightarrow> bool option
     \<Rightarrow> response op" where
  "api_client net self url_path method data dry =
     (let dry' = (case dry of Some b \<Rightarrow> b | None \<Rightarrow> dry_mode self);
          url = api_url self @ url_path
      in if dry' then
           (if method = ''GET'' then
              bind_op (issue net \<lparr> req_method = ''GET'', req_url = url, req_data = None \<rparr>)
                check_401
            else check_401 (FakeResponse 200))
         else if method = ''PUT'' then
           bind_op (issue net \<lparr> req_method = ''PUT'', req_url = url, req_data = data \<rparr>)
             check_401
         else if method = ''POST'' then
           bind_op (issue net \<lparr> req_method = ''POST'', req_url = url, req_data = data \<rparr>)
             check_401
         else if method = ''DELETE'' then
           bind_op (issue net \<lparr> req_method = ''DELETE'', req_url = url, req_data = None \<rparr>)
             check_401
         else if method = ''GET'' then
           bind_op (issue net \<lparr> req_method = ''GET'', req_url = url, req_data = None \<rparr>)
             check_401
         else raise_op (Nexus3CtlException (''Unsupported HTTP method: '' @ method)))"

section \<open>Resource adapters\<close>

text \<open>
  A value inside an f-string: a string stands for itself; what \<^verbatim>\<open>str()\<close> makes of any
  other value is the parameter \<open>render\<close>.
\<close>

definition py_format :: "(pyval \<Rightarrow> string) \<Rightarrow> pyval \<Rightarrow> string" where
  "py_format render v = (case v of PStr s \<Rightarrow> s | _ \<Rightarrow> render v)"

text \<open>\<^verbatim>\<open>payload[key]\<close>: a missing key is a \<^verbatim>\<open>KeyError\<close>, and a string key on anything but a
  dictionary is a \<^verbatim>\<open>TypeError\<close>.\<close>

definition py_getitem :: "pyval \<Rightarrow> string \<Rightarrow> error + pyval" where
  "py_getitem v key =
     (case v of
        PDict kvs \<Rightarrow> (case map_of kvs key of None \<Rightarrow> Inl KeyError | Some x \<Rightarrow> Inr x)
      | _ \<Rightarrow> Inl TypeError)"

text \<open>\<^verbatim>\<open>if limits:\<close> in the listing operations.\<close>

fun limits_truthy :: "limits_arg \<Rightarrow> bool" where
  "limits_truthy LimNone = False"
| "limits_truthy (LimStr s) = (s \<noteq> [])"
| "limits_truthy (LimList ls) = (ls \<noteq> [])"

definition nexus_remap_format :: "pyval \<Rightarrow> pyval" where
  "nexus_remap_format name = (if py_eq name (PStr ''maven2'') then PStr ''maven'' else name)"

text \<open>What the setters log about the response they got.\<close>

datatype report = Created | Updated | NotUpdatable | Failed

text \<open>The body shared by \<^verbatim>\<open>api_get_repos\<close>, \<^verbatim>\<open>api_get_ldaps\<close> and \<^verbatim>\<open>api_get_realms\<close>: one
  \<^verbatim>\<open>GET\<close>, then the selector on the decoded body.\<close>

definition api_get_listing ::
  "transport \<Rightarrow> regex_lib \<Rightarrow> nexus3ctl \<Rightarrow> string \<Rightarrow> limits_arg \<Rightarrow> string option
     \<Rightarrow> pyval op" where
  "api_get_listing net rc self url_path limits select =
     bind_op (api_client net self url_path ''GET'' None None) (\<lambda>response.
       if status_code response = 200 then
         bind_op (lift_op (json_body response)) (\<lambda>out.
           if limits_truthy limits then
             bind_op (lift_op (limit_reduce rc out ''name'' limits '','' select)) (\<lambda>xs.
               return_op (PList xs))
           else return_op out)
       else return_op (PDict []))"

definition api_get_repos ::
  "transport \<Rightarrow> regex_lib \<Rightarrow> nexus3ctl \<Rightarrow> limits_arg \<Rightarrow> string option \<Rightarrow> pyval op" where
  "api_get_repos net rc self limits select =
     api_get_listing net rc self ''repositories'' limits select"

definition api_get_ldaps ::
  "transport \<Rightarrow> regex_lib \<Rightarrow> nexus3ctl \<Rightarrow> limits_arg \<Rightarrow> string option \<Rightarrow> pyval op" where
  "api_get_ldaps net rc self limits select =
     api_get_listing net rc self ''security/ldap'' limits select"

definition api_get_realms ::
  "transport \<Rightarrow> regex_lib \<Rightarrow> nexus3ctl \<Rightarrow> limits_arg \<Rightarrow> string option \<Rightarrow> pyval op" where
  "api_get_realms net rc self limits select =
     api_get_listing net rc self ''security/realms/active'' limits select"

text \<open>The body shared by \<^verbatim>\<open>api_get_role\<close> and \<^verbatim>\<open>api_get_ldap\<close>, and the last step of
  \<^verbatim>\<open>api_get_repo\<close>: one \<^verbatim>\<open>GET\<close>; anything but status 200 is the empty dictionary.\<close>

definition api_get_one :: "transport \<Rightarrow> nexus3ctl \<Rightarrow> string \<Rightarrow> pyval op" where
  "api_get_one net self url_path =
     bind_op (api_client net self url_path ''GET'' None None) (\<lambda>response.
       if status_code response = 200 then lift_op (json_body response)
       else return_op (PDict []))"

definition api_get_repo ::
  "transport \<Rightarrow> (pyval \<Rightarrow> string) \<Rightarrow> nexus3ctl \<Rightarrow> pyval \<Rightarrow> pyval \<Rightarrow> pyval \<Rightarrow> pyval op" where
  "api_get_repo net render self name repo_format repo_type =
     (let finish = (\<lambda>fmt typ.
            api_get_one net self
              (''repositories/'' @ py_format render (nexus_remap_format fmt) @ ''/'' @
               py_format render typ @ ''/'' @ py_format render name))
      in if \<not> py_truthy repo_format \<or> \<not> py_truthy repo_type then
           bind_op
             (api_client net self (''repositories/'' @ py_format render name) ''GET'' None None)
             (\<lambda>response.
               if status_code response = 200 then
                 bind_op (lift_op (json_body response)) (\<lambda>payload.
                   bind_op (lift_op (py_getitem payload ''format'')) (\<lambda>fmt.
                     bind_op (lift_op (py_getitem payload ''type'')) (\<lambda>typ.
                       finish fmt typ)))
               else return_op (PDict []))
         else finish repo_format repo_type)"

definition api_get_role :: "transport \<Rightarrow> (pyval \<Rightarrow> string) \<Rightarrow> nexus3ctl \<Rightarrow> pyval \<Rightarrow> pyval op" where
  "api_get_role net render self ident =
     api_get_one net self (''security/roles/'' @ py_format render ident)"

definition api_get_ldap :: "transport \<Rightarrow> (pyval \<Rightarrow> string) \<Rightarrow> nexus3ctl \<Rightarrow> pyval \<Rightarrow> pyval op" where
  "api_get_ldap net render self ident =
     api_get_one net self (''security/ldap/'' @ py_format render ident)"

text \<open>Iterating over a value, as a comprehension does: the elements of a list, the keys
  of a dictionary, the characters of a string.\<close>

definition py_iter :: "pyval \<Rightarrow> error + pyval list" where
  "py_iter v =
     (case v of
        PList xs \<Rightarrow> Inr xs
      | PDict kvs \<Rightarrow> Inr (map (\<lambda>kv. PStr (fst kv)) kvs)
      | PStr s \<Rightarrow> Inr (map (\<lambda>c. PStr [c]) s)
      | _ \<Rightarrow> Inl TypeError)"

definition nexus_default_roles :: "string list" where
  "nexus_default_roles = [''nx-admin'', ''nx-anonymous'']"

definition api_get_roles ::
  "transport \<Rightarrow> regex_lib \<Rightarrow> nexus3ctl \<Rightarrow> bool \<Rightarrow> bool \<Rightarrow> limits_arg \<Rightarrow> string option
     \<Rightarrow> pyval op" where
  "api_get_roles net rc self exclude_ldap exclude_default limits select =
     bind_op (api_client net self ''security/roles'' ''GET'' None None) (\<lambda>response.
       if status_code response \<noteq> 200 then return_op (PDict [])
       else
         bind_op (lift_op (json_body response)) (\<lambda>out0.
         bind_op (if limits_truthy limits
                  then bind_op (lift_op (limit_reduce rc out0 ''name'' limits '','' select))
                         (\<lambda>xs. return_op (PList xs))
                  else return_op out0) (\<lambda>out1.
         bind_op (if exclude_default
                  then bind_op (lift_op (py_iter out1)) (\<lambda>xs.
                       bind_op (lift_op (filterE
                           (item_test (\<lambda>v. Inr (\<not> list_ex (\<lambda>d. py_eq v (PStr d))
                                                      nexus_default_roles)) ''id'') xs))
                         (\<lambda>ys. return_op (PList ys)))
                  else return_op out1) (\<lambda>out2.
         if exclude_ldap
         then bind_op (lift_op (py_iter out2)) (\<lambda>xs.
              bind_op (lift_op (filterE
                  (item_test (\<lambda>v. Inr (\<not> py_eq v (PStr ''LDAP''))) ''source'') xs))
                (\<lambda>ys. return_op (PList ys)))
         else return_op out2))))"

text \<open>
  The setters. Each looks the item up first (a \<^verbatim>\<open>GET\<close>), then, in dry mode, makes up
  the response itself; otherwise it updates or creates through \<^verbatim>\<open>api_client\<close>. The
  configuration is a dictionary (\<^verbatim>\<open>dict(config)\<close> copies it).
\<close>

definition api_set_repo ::
  "transport \<Rightarrow> (pyval \<Rightarrow> string) \<Rightarrow> nexus3ctl \<Rightarrow> (string \<times> pyval) list \<Rightarrow> report op" where
  "api_set_repo net render self config =
     bind_op (lift_op (py_getitem (PDict config) ''name'')) (\<lambda>name.
     bind_op (api_get_repo net render self name PNone PNone) (\<lambda>current.
     bind_op (lift_op (py_getitem (PDict config) ''format'')) (\<lambda>fmt0.
       let config' = AList.delete ''url''
                       (AList.update ''format'' (nexus_remap_format fmt0) config)
       in
     bind_op (lift_op (py_getitem (PDict config') ''format'')) (\<lambda>fmt.
     bind_op (lift_op (py_getitem (PDict config') ''type'')) (\<lambda>typ.
     bind_op
       (if dry_mode self then
          return_op (if py_truthy current then FakeResponse 204 else FakeResponse 201)
        else if py_truthy current then
          api_client net self
            (''repositories/'' @ py_format render fmt @ ''/'' @ py_format render typ @
             ''/'' @ py_format render name)
            ''PUT'' (Some (PDict config')) None
        else
          api_client net self
            (''repositories/'' @ py_format render fmt @ ''/'' @ py_format render typ)
            ''POST'' (Some (PDict config')) None) (\<lambda>ret.
       return_op (if status_code ret = 201 then Created
                  else if status_code ret = 204 then Updated
                  else Failed)))))))"

definition api_set_role ::
  "transport \<Rightarrow> (pyval \<Rightarrow> string) \<Rightarrow> nexus3ctl \<Rightarrow> (string \<times> pyval) list \<Rightarrow> pyval
     \<Rightarrow> report op" where
  "api_set_role net render self config ident0 =
     bind_op (if py_truthy ident0 then return_op ident0
              else lift_op (py_getitem (PDict config) ''id'')) (\<lambda>ident.
     bind_op (api_get_role net render self ident) (\<lambda>current.
     bind_op
       (if dry_mode self then
          return_op (if py_truthy current then FakeResponse 200 else FakeResponse 204)
        else if py_truthy current then
          api_client net self (''security/roles/'' @ py_format render ident)
            ''PUT'' (Some (PDict config)) None
        else
          api_client net self ''security/roles'' ''POST'' (Some (PDict config)) None) (\<lambda>ret.
       return_op (if status_code ret = 200 then Created
                  else if status_code ret = 204 then Updated
                  else Failed))))"

definition api_set_ldap ::
  "transport \<Rightarrow> (pyval \<Rightarrow> string) \<Rightarrow> nexus3ctl \<Rightarrow> (string \<times> pyval) list \<Rightarrow> pyval
     \<Rightarrow> report op" where
  "api_set_ldap net render self config name0 =
     bind_op (if py_truthy name0 then return_op name0
              else lift_op (py_getitem (PDict config) ''name'')) (\<lambda>ident.
     bind_op (api_get_ldap net render self ident) (\<lambda>current.
     bind_op
       (if dry_mode self then
          return_op (if py_truthy current then FakeResponse 204 else FakeResponse 201)
        else if py_truthy current then return_op (FakeResponse 204)
        else
          api_client net self ''security/ldap'' ''POST'' (Some (PDict config)) None) (\<lambda>ret.
       return_op (if status_code ret = 201 then Created
                  else if status_code ret = 204 then NotUpdatable
                  else Failed))))"

text \<open>The realms are one list of names, pushed whole.\<close>

definition api_set_realms :: "transport \<Rightarrow> nexus3ctl \<Rightarrow> string list \<Rightarrow> report op" where
  "api_set_realms net self config =
     bind_op
       (if dry_mode self then return_op (FakeResponse 200)
        else api_client net self ''security/realms/active'' ''PUT''
               (Some (PList (map PStr config))) None) (\<lambda>ret.
       return_op (if status_code ret = 204 then Updated else Failed))"

section \<open>The importers\<close>

text \<open>
  The target directory is a parameter: for each resource type, the files that \<^verbatim>\<open>glob\<close>
  finds, in the order it gives them, and what \<^verbatim>\<open>json.load\<close> makes of each file, or the
  exception of opening or decoding it. Repository, role and LDAP files hold one JSON
  object each; the realms file holds a list of names.
\<close>

record target_store =
  repo_files :: "string list"
  role_files :: "string list"
  ldap_files :: "string list"
  realm_files :: "string list"
  load_item :: "string \<Rightarrow> error + (string \<times> pyval) list"
  load_realms :: "string \<Rightarrow> error + string list"

definition cli_import_realms :: "transport \<Rightarrow> nexus3ctl \<Rightarrow> target_store \<Rightarrow> report list op" where
  "cli_import_realms net self store =
     (case realm_files store of
        [] \<Rightarrow> return_op []
      | file # _ \<Rightarrow>
          bind_op (lift_op (load_realms store file)) (\<lambda>realms.
          bind_op (api_set_realms net self realms) (\<lambda>r. return_op [r])))"

definition cli_import_ldap ::
  "transport \<Rightarrow> (pyval \<Rightarrow> string) \<Rightarrow> nexus3ctl \<Rightarrow> target_store \<Rightarrow> report list op" where
  "cli_import_ldap net render self store =
     bind_op (lift_op (mapE (load_item store) (ldap_files store))) (\<lambda>ldaps.
       for_each (\<lambda>ldap. api_set_ldap net render self ldap PNone) ldaps)"

definition cli_import_roles ::
  "transport \<Rightarrow> (pyval \<Rightarrow> string) \<Rightarrow> nexus3ctl \<Rightarrow> target_store \<Rightarrow> report list op" where
  "cli_import_roles net render self store =
     bind_op (lift_op (mapE (load_item store) (role_files store))) (\<lambda>items.
     bind_op (lift_op (roles_import_order items)) (\<lambda>sorted_items.
       for_each (\<lambda>role. api_set_role net render self role PNone) sorted_items))"

definition cli_import_repos ::
  "transport \<Rightarrow> (pyval \<Rightarrow> string) \<Rightarrow> nexus3ctl \<Rightarrow> target_store \<Rightarrow> report list op" where
  "cli_import_repos net render self store =
     for_each
       (\<lambda>file. bind_op (lift_op (load_item store file)) (\<lambda>repo.
                 api_set_repo net render self repo))
       (repos_import_order (repo_files store))"

text \<open>\<^verbatim>\<open>ResourceTypes.list()\<close>, the value of \<^verbatim>\<open>Nexus3Ctl.targets\<close>.\<close>

definition ResourceTypes_list :: "string list" where
  "ResourceTypes_list = [''repos'', ''roles'', ''ldap'', ''realms'']"

text \<open>The command \<^verbatim>\<open>import\<close>: the resource types come from the toggle expression, and the
  importers run in the order repos, ldap, roles, realms.\<close>

definition cli_import ::
  "transport \<Rightarrow> (pyval \<Rightarrow> string) \<Rightarrow> nexus3ctl \<Rightarrow> target_store \<Rightarrow> string
     \<Rightarrow> report list op" where
  "cli_import net render self store types =
     bind_op (lift_op (control_list (CfgStr types) (Some ResourceTypes_list) '','' (Some ''ALL'')))
       (\<lambda>res.
     bind_op (if ''repos'' \<in> result res then cli_import_repos net render self store
              else return_op []) (\<lambda>r1.
     bind_op (if ''ldap'' \<in> result res then cli_import_ldap net render self store
              else return_op []) (\<lambda>r2.
     bind_op (if ''roles'' \<in> result res then cli_import_roles net render self store
              else return_op []) (\<lambda>r3.
     bind_op (if ''realms'' \<in> result res then cli_import_realms net self store
              else return_op []) (\<lambda>r4.
       return_op (r1 @ r2 @ r3 @ r4))))))"

section \<open>Notions used to state the properties\<close>

text \<open>The key field of an item, as \<^verbatim>\<open>item.get(key)\<close> reads it.\<close>

definition key_field :: "string \<Rightarrow> (string \<times> pyval) list \<Rightarrow> pyval" where
  "key_field key item = (case map_of item key of None \<Rightarrow> PNone | Some v \<Rightarrow> v)"

text \<open>A list without its repetitions, each element at the place of its first occurrence.\<close>

definition first_occurrences :: "'a list \<Rightarrow> 'a list" where
  "first_occurrences xs = rev (remdups (rev xs))"

text \<open>The first item of a collection whose key field equals a rule.\<close>

definition first_match ::
  "string \<Rightarrow> (string \<times> pyval) list list \<Rightarrow> string \<Rightarrow> (string \<times> pyval) list option" where
  "first_match key items r = find (\<lambda>it. key_field key it = PStr r) items"

text \<open>
  The selection the specification describes for the strategy \<^verbatim>\<open>exact\<close>: for each rule,
  in the order the rules were given and once per rule, the first item whose key field
  equals it.
\<close>

definition select_exact ::
  "string \<Rightarrow> (string \<times> pyval) list list \<Rightarrow> string list \<Rightarrow> (string \<times> pyval) list list" where
  "select_exact key items rules =
     List.map_filter (first_match key items) (first_occurrences rules)"

text \<open>
  The resolver as the specification words it: a walk over the tokens with an
  accumulator, where \<^verbatim>\<open>ALL\<close> sets the accumulator to a copy of the defaults.
\<close>

definition resolve_step :: "string list \<Rightarrow> string \<Rightarrow> string list \<Rightarrow> string list" where
  "resolve_step defaults token acc =
     (if token = ''ALL'' then defaults
      else if token = ''NONE'' then []
      else if prefix ''-'' token then remove1 (tl token) acc
      else if prefix ''+'' token then
        (if tl token \<in> set acc then acc else acc @ [tl token])
      else if token = [] then acc
      else (if token \<in> set acc then acc else acc @ [token]))"

definition resolve_spec :: "string list \<Rightarrow> string list \<Rightarrow> string set" where
  "resolve_spec toks defaults = set (fold (resolve_step defaults) toks [])"

text \<open>The score of a role that has one: the value of \<^verbatim>\<open>nexus_sort_roles\<close>.\<close>

definition role_score :: "(string \<times> pyval) list \<Rightarrow> nat" where
  "role_score item = (case nexus_sort_roles (PDict item) of Inl e \<Rightarrow> 0 | Inr n \<Rightarrow> n)"

text \<open>An operation that issues nothing but \<^verbatim>\<open>GET\<close> calls, whatever was issued before it.\<close>

definition is_get :: "request \<Rightarrow> bool" where
  "is_get req = (req_method req = ''GET'')"

definition gets_only :: "'a op \<Rightarrow> bool" where
  "gets_only f = (\<forall>trace. \<exists>new. snd (f trace) = trace @ new \<and> list_all is_get new)"

text \<open>Concrete surroundings for the examples: a server that answers every call with
  status 200 and a given body, a regular expression library that knows literal patterns
  only, and a rendering of values that are not strings.\<close>

definition net_ok :: "pyval \<Rightarrow> transport" where
  "net_ok body trace req = Inr \<lparr> status_code = 200, json_body = Inr body \<rparr>"

definition literal_regex :: regex_lib where
  "literal_regex pattern = Some (\<lambda>s. prefix pattern s)"

definition render_none :: "pyval \<Rightarrow> string" where
  "render_none v = ''None''"

definition nexus_dry :: nexus3ctl where
  "nexus_dry = \<lparr> api_url = ''http://nexus/service/rest/v1/'', dry_mode = True \<rparr>"

definition nexus_live :: nexus3ctl where
  "nexus_live = \<lparr> api_url = ''http://nexus/service/rest/v1/'', dry_mode = False \<rparr>"

text \<open>A target directory with two repositories, a role, an LDAP endpoint and the realms
  file, and the body the example server answers with.\<close>

definition store_one :: target_store where
  "store_one =
     \<lparr> repo_files = [''out/repos/maven2-proxy__central.json'',
                      ''out/repos/maven2-hosted__releases.json''],
       role_files = [''out/roles/dev.json''],
       ldap_files = [''out/ldap/corp.json''],
       realm_files = [''out/conf/realms.json''],
       load_item = (\<lambda>file.
          if file = ''out/repos/maven2-hosted__releases.json'' then
            Inr [(''name'', PStr ''releases''), (''format'', PStr ''maven2''),
                 (''type'', PStr ''hosted''),
                 (''url'', PStr ''http://nexus/repository/releases'')]
          else if file = ''out/repos/maven2-proxy__central.json'' then
            Inr [(''name'', PStr ''central''), (''format'', PStr ''maven2''),
                 (''type'', PStr ''proxy'')]
          else if file = ''out/roles/dev.json'' then
            Inr [(''id'', PStr ''dev''), (''roles'', PList []), (''privileges'', PList [])]
          else Inr [(''name'', PStr ''corp'')]),
       load_realms = (\<lambda>file. Inr [''NexusAuthenticatingRealm'']) \<rparr>"

definition repo_body :: pyval where
  "repo_body = PDict [(''format'', PStr ''maven2''), (''type'', PStr ''hosted'')]"

section \<open>Python values: basic facts\<close>

lemma py_eq_PStr: "py_eq v (PStr s) = (v = PStr s)"
  by (cases v) auto

lemma py_dict_get_PDict: "py_dict_get (PDict item) key = Inr (key_field key item)"
  by (simp add: py_dict_get_def key_field_def)

lemma filterE_total:
  "filterE (item_test (\<lambda>v. Inr (P v)) key) (map PDict items)
     = Inr (map PDict (filter (\<lambda>it. P (key_field key it)) items))"
  by (induction items) (simp_all add: item_test_def py_dict_get_PDict)

lemma filterE_fails: "x \<in> set xs \<Longrightarrow> p x = Inl e \<Longrightarrow> \<exists>e'. filterE p xs = Inl e'"
  by (induction xs) (auto split: sum.splits)

lemma set_map_filter: "set (List.map_filter f xs) = {y. \<exists>x \<in> set xs. f x = Some y}"
  by (induction xs) (auto split: option.splits)

lemma map_filter_filter_None:
  "f r = None \<Longrightarrow> List.map_filter f (filter (\<lambda>y. y \<noteq> r) xs) = List.map_filter f xs"
  by (induction xs) (auto split: option.splits)

subsection \<open>First occurrences\<close>

lemma remdups_snoc: "remdups (ys @ [x]) = filter (\<lambda>y. y \<noteq> x) (remdups ys) @ [x]"
  by (induction ys) auto

lemma first_occurrences_Nil: "first_occurrences [] = []"
  by (simp add: first_occurrences_def)

lemma first_occurrences_Cons:
  "first_occurrences (x # xs) = x # filter (\<lambda>y. y \<noteq> x) (first_occurrences xs)"
  by (simp add: first_occurrences_def remdups_snoc rev_filter)

lemma first_occurrences_filter:
  "first_occurrences (filter P xs) = filter P (first_occurrences xs)"
proof (induction xs)
  case Nil
  show ?case by (simp add: first_occurrences_Nil)
next
  case (Cons x xs)
  show ?case
    by (auto simp: first_occurrences_Cons Cons.IH intro!: filter_cong)
qed

lemma set_first_occurrences: "set (first_occurrences xs) = set xs"
  by (simp add: first_occurrences_def)

lemma distinct_first_occurrences: "distinct (first_occurrences xs)"
  by (simp add: first_occurrences_def)

section \<open>The selector\<close>

subsection \<open>Empty rule list\<close>

text \<open>
  Claim C10. For every collection of items, \<^verbatim>\<open>limit_reduce\<close> called with an empty rule
  list (or with no rule list at all) returns the input collection unchanged, whatever
  the key, the separator and the strategy are; the strategy is not even looked at.
\<close>

theorem C10_empty_rules_pass_through:
  "limit_reduce rc (PList items) key (LimList []) sep select = Inr items \<and>
   limit_reduce rc (PList items) key LimNone sep select = Inr items"
  by (simp add: limit_reduce_def split_limits_def)

subsection \<open>The strategy \<^verbatim>\<open>exact\<close>\<close>

lemma matched_items_exact:
  "matched_items rc ''exact'' key limit (map PDict items)
     = Inr (map PDict (filter (\<lambda>it. key_field key it = PStr limit) items))"
  by (simp add: matched_items_def filterE_total py_eq_PStr)

text \<open>All matches of one rule carry the same key, so the inner loop appends the first of
  them, and only when no item with that key is in the output yet.\<close>

lemma add_matches_same_key:
  "\<forall>m \<in> set ms. key_field key m = PStr r \<Longrightarrow>
   add_matches key (map PDict out) (map PDict ms)
     = Inr (map PDict (if ms = [] \<or> (\<exists>x \<in> set out. key_field key x = PStr r)
                       then out else out @ [hd ms]))"
proof (induction ms arbitrary: out)
  case Nil
  show ?case by simp
next
  case (Cons m ms)
  have km: "key_field key m = PStr r" using Cons.prems by simp
  have rest: "\<forall>m \<in> set ms. key_field key m = PStr r" using Cons.prems by simp
  show ?case
  proof (cases "\<exists>x \<in> set out. key_field key x = PStr r")
    case True
    then have "filter (\<lambda>it. key_field key it = PStr r) out \<noteq> []"
      by (simp add: filter_empty_conv)
    then show ?thesis
      using True Cons.IH [OF rest, of out]
      by (simp add: py_dict_get_PDict km filterE_total py_eq_PStr)
  next
    case False
    then have "filter (\<lambda>it. key_field key it = PStr r) out = []"
      by (simp add: filter_empty_conv)
    then show ?thesis
      using False Cons.IH [OF rest, of "out @ [m]"] km
      by (simp add: py_dict_get_PDict filterE_total py_eq_PStr)
  qed
qed

lemma first_match_None:
  "(first_match key items r = None) = (filter (\<lambda>it. key_field key it = PStr r) items = [])"
  by (auto simp: first_match_def find_None_iff filter_empty_conv)

lemma first_match_Some:
  "first_match key items r = Some m \<Longrightarrow>
   filter (\<lambda>it. key_field key it = PStr r) items \<noteq> [] \<and>
   hd (filter (\<lambda>it. key_field key it = PStr r) items) = m \<and>
   key_field key m = PStr r \<and> m \<in> set items"
  unfolding first_match_def
  by (induction items) (auto split: if_splits)

lemma first_match_in_items:
  "first_match key items r = Some m \<Longrightarrow> m \<in> set items \<and> key_field key m = PStr r"
  using first_match_Some by blast

lemma first_match_exists:
  assumes "it \<in> set items" and "key_field key it = PStr r"
  shows "\<exists>m. first_match key items r = Some m"
proof -
  have "first_match key items r \<noteq> None"
    using assms by (auto simp: first_match_None filter_empty_conv)
  then show ?thesis by auto
qed

text \<open>The outer loop, from any output built so far: the rules whose key is already in the
  output add nothing; every other rule adds its first match, once.\<close>

lemma reduce_loop_exact:
  "reduce_loop rc ''exact'' key (map PDict items) (map PDict out) rules
     = Inr (map PDict (out @ List.map_filter (first_match key items)
              (first_occurrences (filter (\<lambda>r. PStr r \<notin> key_field key ` set out) rules))))"
proof (induction rules arbitrary: out)
  case Nil
  show ?case by (simp add: first_occurrences_Nil)
next
  case (Cons r rules)
  let ?ms = "filter (\<lambda>it. key_field key it = PStr r) items"
  have same: "\<forall>m \<in> set ?ms. key_field key m = PStr r" by simp
  note am = add_matches_same_key [OF same, of out]
  show ?case
  proof (cases "PStr r \<in> key_field key ` set out")
    case True
    then have ex: "\<exists>x \<in> set out. key_field key x = PStr r" by auto
    show ?thesis
      using True ex am Cons.IH [of out]
      by (simp add: matched_items_exact)
  next
    case False
    then have nex: "\<not> (\<exists>x \<in> set out. key_field key x = PStr r)" by force
    show ?thesis
    proof (cases "first_match key items r")
      case None
      then have "?ms = []" by (simp add: first_match_None)
      then show ?thesis
        using False None am Cons.IH [of out]
        by (simp add: matched_items_exact first_occurrences_Cons map_filter_filter_None)
    next
      case (Some m)
      note fm = first_match_Some [OF Some]
      have flt: "filter (\<lambda>r'. PStr r' \<notin> key_field key ` set (out @ [m])) rules
                 = filter (\<lambda>y. y \<noteq> r)
                     (filter (\<lambda>r'. PStr r' \<notin> key_field key ` set out) rules)"
        using fm by (auto intro: filter_cong)
      have comm: "filter (\<lambda>x. PStr x \<notin> key_field key ` set out \<and> x \<noteq> r)
                    (first_occurrences rules)
                  = filter (\<lambda>x. x \<noteq> r \<and> PStr x \<notin> key_field key ` set out)
                      (first_occurrences rules)"
        by (rule filter_cong) auto
      show ?thesis
        using False nex Some fm am Cons.IH [of "out @ [m]"]
        by (simp add: matched_items_exact first_occurrences_Cons flt
            first_occurrences_filter comm)
    qed
  qed
qed

lemma limit_reduce_exact:
  assumes "rules \<noteq> []" and "select_or_exact select = ''exact''"
  shows "limit_reduce rc (PList (map PDict items)) key (LimList rules) sep select
           = Inr (map PDict (select_exact key items rules))"
proof -
  have "reduce_loop rc ''exact'' key (map PDict items) (map PDict []) rules
          = Inr (map PDict (select_exact key items rules))"
    unfolding reduce_loop_exact select_exact_def by simp
  then show ?thesis
    using assms by (simp add: limit_reduce_def split_limits_def)
qed

lemma select_exact_sound:
  "x \<in> set (select_exact key items rules) \<Longrightarrow>
     x \<in> set items \<and> (\<exists>r \<in> set rules. key_field key x = PStr r)"
  by (auto simp: select_exact_def set_map_filter set_first_occurrences
      dest: first_match_in_items)

lemma select_exact_complete:
  assumes "it \<in> set items" and "r \<in> set rules" and "key_field key it = PStr r"
  shows "\<exists>x \<in> set (select_exact key items rules).
           key_field key x = PStr r \<and> first_match key items r = Some x"
proof -
  obtain m where m: "first_match key items r = Some m"
    using first_match_exists [OF assms(1) assms(3)] by blast
  have "m \<in> set (select_exact key items rules)"
    using m assms(2) by (force simp: select_exact_def set_map_filter set_first_occurrences)
  then show ?thesis
    using m first_match_in_items [OF m] by auto
qed

lemma keys_map_filter:
  "map (key_field key) (List.map_filter (first_match key items) rs)
     = map PStr (filter (\<lambda>r. PStr r \<in> key_field key ` set items) rs)"
proof (induction rs)
  case Nil
  show ?case by simp
next
  case (Cons r rs)
  show ?case
  proof (cases "first_match key items r")
    case None
    then have "PStr r \<notin> key_field key ` set items"
      by (auto simp: first_match_None filter_empty_conv)
    then show ?thesis using None Cons.IH by simp
  next
    case (Some m)
    then have "PStr r \<in> key_field key ` set items" "key_field key m = PStr r"
      using first_match_in_items [OF Some] by force+
    then show ?thesis using Some Cons.IH by simp
  qed
qed

lemma select_exact_keys:
  "map (key_field key) (select_exact key items rules)
     = map PStr (filter (\<lambda>r. PStr r \<in> key_field key ` set items) (first_occurrences rules))"
  by (simp add: select_exact_def keys_map_filter)

lemma select_exact_distinct: "distinct (map (key_field key) (select_exact key items rules))"
  by (simp add: select_exact_keys distinct_map distinct_first_occurrences inj_on_def)

lemma select_exact_all_matches:
  assumes "distinct (map (key_field key) items)"
  shows "set (select_exact key items rules)
           = {it \<in> set items. \<exists>r \<in> set rules. key_field key it = PStr r}"
proof (intro equalityI subsetI)
  fix x
  assume "x \<in> set (select_exact key items rules)"
  then show "x \<in> {it \<in> set items. \<exists>r \<in> set rules. key_field key it = PStr r}"
    using select_exact_sound by blast
next
  fix x
  assume "x \<in> {it \<in> set items. \<exists>r \<in> set rules. key_field key it = PStr r}"
  then obtain r where x: "x \<in> set items" "r \<in> set rules" "key_field key x = PStr r"
    by blast
  obtain y where y: "y \<in> set (select_exact key items rules)" "key_field key y = PStr r"
    using select_exact_complete [OF x] by blast
  have "y \<in> set items" using y(1) select_exact_sound by blast
  moreover have "inj_on (key_field key) (set items)"
    using assms by (simp add: distinct_map)
  ultimately have "y = x" using x(1,3) y(2) by (simp add: inj_on_def)
  then show "x \<in> set (select_exact key items rules)" using y(1) by simp
qed

text \<open>
  Claim C1. For every collection of items, every non-empty list of rules and the
  strategy \<^verbatim>\<open>exact\<close> (named, or taken by default), \<^verbatim>\<open>limit_reduce\<close> returns normally,
  and what it returns is: for each rule, in the order the rules were given and once per
  rule, the first item of the collection whose key field equals the rule. So every
  returned item is an item of the collection whose key field equals some rule; every
  item whose key field equals some rule is represented in the output by the first item
  that carries its key; no two returned items have the same key; the keys of the output
  are the rules that match an item, in the order the rules were given; and when the
  keys of the collection are distinct, the output holds exactly the items whose key
  field equals some rule.
\<close>

theorem C1_exact_selection:
  assumes "rules \<noteq> []" and "select_or_exact select = ''exact''"
  shows "limit_reduce rc (PList (map PDict items)) key (LimList rules) sep select
           = Inr (map PDict (select_exact key items rules)) \<and>
         (\<forall>x \<in> set (select_exact key items rules).
            x \<in> set items \<and> (\<exists>r \<in> set rules. key_field key x = PStr r)) \<and>
         (\<forall>it \<in> set items. \<forall>r \<in> set rules. key_field key it = PStr r \<longrightarrow>
            (\<exists>x \<in> set (select_exact key items rules).
               key_field key x = PStr r \<and> first_match key items r = Some x)) \<and>
         distinct (map (key_field key) (select_exact key items rules)) \<and>
         map (key_field key) (select_exact key items rules)
           = map PStr (filter (\<lambda>r. PStr r \<in> key_field key ` set items)
                         (first_occurrences rules)) \<and>
         (distinct (map (key_field key) items) \<longrightarrow>
            set (select_exact key items rules)
              = {it \<in> set items. \<exists>r \<in> set rules. key_field key it = PStr r})"
proof (intro conjI)
  show "limit_reduce rc (PList (map PDict items)) key (LimList rules) sep select
          = Inr (map PDict (select_exact key items rules))"
    using assms by (rule limit_reduce_exact)
  show "\<forall>x \<in> set (select_exact key items rules).
          x \<in> set items \<and> (\<exists>r \<in> set rules. key_field key x = PStr r)"
    using select_exact_sound by blast
  show "\<forall>it \<in> set items. \<forall>r \<in> set rules. key_field key it = PStr r \<longrightarrow>
          (\<exists>x \<in> set (select_exact key items rules).
             key_field key x = PStr r \<and> first_match key items r = Some x)"
    using select_exact_complete by blast
  show "distinct (map (key_field key) (select_exact key items rules))"
    by (rule select_exact_distinct)
  show "map (key_field key) (select_exact key items rules)
          = map PStr (filter (\<lambda>r. PStr r \<in> key_field key ` set items)
                        (first_occurrences rules))"
    by (rule select_exact_keys)
  show "distinct (map (key_field key) items) \<longrightarrow>
          set (select_exact key items rules)
            = {it \<in> set items. \<exists>r \<in> set rules. key_field key it = PStr r}"
    using select_exact_all_matches by blast
qed

text \<open>The theorem at a collection of four items, one without the key and two with the
  same name, and the rules \<^verbatim>\<open>b,a,b\<close>.\<close>

theorem C1_exact_selection_witness:
  "[''b'', ''a'', ''b''] \<noteq> [] \<and> select_or_exact (Some ''exact'') = ''exact'' \<and>
   limit_reduce literal_regex
     (PList (map PDict
        [[(''name'', PStr ''a''), (''n'', PInt 1)], [(''id'', PStr ''c'')],
         [(''name'', PStr ''b'')], [(''name'', PStr ''a''), (''n'', PInt 2)]]))
     ''name'' (LimList [''b'', ''a'', ''b'']) '','' (Some ''exact'')
   = Inr [PDict [(''name'', PStr ''b'')], PDict [(''name'', PStr ''a''), (''n'', PInt 1)]]"
  using C1_exact_selection
    [of "[''b'', ''a'', ''b'']" "Some ''exact''" literal_regex
        "[[(''name'', PStr ''a''), (''n'', PInt 1)], [(''id'', PStr ''c'')],
          [(''name'', PStr ''b'')], [(''name'', PStr ''a''), (''n'', PInt 2)]]"
        "''name''" "'',''"]
  by (simp add: select_exact_def first_match_def first_occurrences_def key_field_def
      select_or_exact_def)

subsection \<open>Items without the key field\<close>

text \<open>Under the four strategies that call a method of the field or search it, an item
  whose key field is missing (or null) ends the call with an exception, whatever the
  other items and the rules are.\<close>

lemma missing_key_raises:
  assumes "rules \<noteq> []" and "it \<in> set items" and "key_field key it = PNone"
    and "s \<in> {''contains'', ''startswith'', ''endswith'', ''regex''}"
  shows "\<exists>e. limit_reduce rc (PList (map PDict items)) key (LimList rules) sep (Some s) = Inl e"
proof -
  obtain r rs where rules: "rules = r # rs" using assms(1) by (cases rules) auto
  have mem: "PDict it \<in> set (map PDict items)" using assms(2) by simp
  have t1: "item_test (\<lambda>v. py_in r v) key (PDict it) = Inl TypeError"
    by (simp add: item_test_def py_dict_get_PDict assms(3) py_in_def)
  have t2: "item_test (\<lambda>v. py_startswith v r) key (PDict it) = Inl AttributeError"
    by (simp add: item_test_def py_dict_get_PDict assms(3) py_startswith_def)
  have t3: "item_test (\<lambda>v. py_endswith v r) key (PDict it) = Inl AttributeError"
    by (simp add: item_test_def py_dict_get_PDict assms(3) py_endswith_def)
  have t4: "\<exists>e. item_test (\<lambda>v. py_re_match rc r v) key (PDict it) = Inl e"
    by (simp add: item_test_def py_dict_get_PDict assms(3) py_re_match_def
        split: option.splits)
  have "\<exists>e. matched_items rc s key r (map PDict items) = Inl e"
    using assms(4) t1 t2 t3 t4 filterE_fails [where x = "PDict it", OF mem]
    by (auto simp: matched_items_def)
  then show ?thesis
    using assms(4) rules
    by (auto simp: limit_reduce_def split_limits_def select_or_exact_def)
qed

text \<open>
  Claim C3. The claim is that an item without the key field is a non-match under the
  strategies \<^verbatim>\<open>contains\<close>, \<^verbatim>\<open>startswith\<close>, \<^verbatim>\<open>endswith\<close> and \<^verbatim>\<open>regex\<close>, and that the
  call returns normally. At the collection of the one item \<^verbatim>\<open>{"id": "r1"}\<close>, the key
  \<^verbatim>\<open>name\<close> and the rule \<^verbatim>\<open>a\<close> the call raises under each of the four: \<^verbatim>\<open>TypeError\<close> for
  \<^verbatim>\<open>contains\<close> and \<^verbatim>\<open>regex\<close>, \<^verbatim>\<open>AttributeError\<close> for \<^verbatim>\<open>startswith\<close> and \<^verbatim>\<open>endswith\<close>. Under
  \<^verbatim>\<open>exact\<close> the same item is a non-match and the call returns the empty list.
\<close>

theorem C3_missing_key_raises:
  "limit_reduce rc (PList [PDict [(''id'', PStr ''r1'')]]) ''name'' (LimList [''a'']) '',''
     (Some ''contains'') = Inl TypeError \<and>
   limit_reduce rc (PList [PDict [(''id'', PStr ''r1'')]]) ''name'' (LimList [''a'']) '',''
     (Some ''startswith'') = Inl AttributeError \<and>
   limit_reduce rc (PList [PDict [(''id'', PStr ''r1'')]]) ''name'' (LimList [''a'']) '',''
     (Some ''endswith'') = Inl AttributeError \<and>
   limit_reduce literal_regex (PList [PDict [(''id'', PStr ''r1'')]]) ''name''
     (LimList [''a'']) '','' (Some ''regex'') = Inl TypeError \<and>
   limit_reduce rc (PList [PDict [(''id'', PStr ''r1'')]]) ''name'' (LimList [''a'']) '',''
     (Some ''exact'') = Inr []"
  by (simp add: limit_reduce_def split_limits_def select_or_exact_def matched_items_def
      item_test_def py_dict_get_def py_in_def py_startswith_def py_endswith_def
      py_re_match_def literal_regex_def)

subsection \<open>A strategy that is not one of the five\<close>

lemma matched_items_unsupported:
  "select \<notin> set LimitSelect_list \<Longrightarrow>
   matched_items rc select key limit config = Inl (unsupported_mode select)"
  by (simp add: matched_items_def LimitSelect_list_def)

lemma split_go_not_Nil: "split_go sep k cur s \<noteq> []"
  by (induction s arbitrary: k cur) auto

lemma split_limits_truthy:
  "limits_truthy limits \<Longrightarrow> \<exists>r rs. split_limits limits '','' = Inr (r # rs)"
proof (cases limits)
  case LimNone
  assume "limits_truthy limits"
  then show ?thesis using LimNone by simp
next
  case (LimStr x)
  obtain r rs where "split_go '','' 0 [] x = r # rs"
    using split_go_not_Nil [of "'',''" 0 "[]" x] by (cases "split_go '','' 0 [] x") auto
  then show ?thesis using LimStr by (simp add: split_limits_def py_split_def)
next
  case (LimList x)
  assume "limits_truthy limits"
  then show ?thesis using LimList by (cases x) (simp_all add: split_limits_def)
qed

lemma limit_reduce_unsupported:
  assumes "limits_truthy limits" and "s \<noteq> []" and "s \<notin> set LimitSelect_list"
  shows "limit_reduce rc (PList items) key limits '','' (Some s) = Inl (unsupported_mode s)"
proof -
  obtain r rs where "split_limits limits '','' = Inr (r # rs)"
    using split_limits_truthy [OF assms(1)] by blast
  then show ?thesis
    using assms(2,3)
    by (simp add: limit_reduce_def select_or_exact_def matched_items_unsupported)
qed

lemma join_names:
  "py_join '','' LimitSelect_list = ''exact,contains,startswith,endswith,regex''"
  by (simp add: LimitSelect_list_def)

lemma sublist_of_suffix_part: "sublist n ys \<Longrightarrow> sublist n (xs @ ys)"
  by (metis append.assoc sublist_def)

lemma names_in_join: "n \<in> set LimitSelect_list \<Longrightarrow> sublist n (py_join '','' LimitSelect_list)"
  unfolding join_names by (auto simp: LimitSelect_list_def sublist_code)

lemma unsupported_mode_lists_names:
  "\<exists>msg. unsupported_mode s = Nexus3CtlException msg \<and>
     (\<forall>n \<in> set LimitSelect_list. sublist n msg)"
proof -
  let ?msg = "(''Unsupported mode '' @ [CHR 0x27] @ s @ [CHR 0x27] @
               '', please choose one of: '') @ py_join '','' LimitSelect_list"
  have "unsupported_mode s = Nexus3CtlException ?msg" by (simp add: unsupported_mode_def)
  moreover have "\<forall>n \<in> set LimitSelect_list. sublist n ?msg"
    using names_in_join sublist_of_suffix_part by blast
  ultimately show ?thesis by blast
qed

lemma api_client_get:
  "api_client net self url_path ''GET'' data dry
     = bind_op (issue net \<lparr> req_method = ''GET'', req_url = api_url self @ url_path,
                             req_data = None \<rparr>) check_401"
  by (simp add: api_client_def Let_def)

lemma api_client_get_200:
  assumes "net trace \<lparr> req_method = ''GET'', req_url = api_url self @ url_path,
                       req_data = None \<rparr> = Inr resp"
    and "status_code resp = 200"
  shows "api_client net self url_path ''GET'' data dry trace
     = (Inr resp, trace @ [\<lparr> req_method = ''GET'', req_url = api_url self @ url_path,
                             req_data = None \<rparr>])"
  using assms by (simp add: api_client_get bind_op_def issue_def check_401_def return_op_def)

lemma api_get_listing_unsupported:
  assumes "limits_truthy limits" and "s \<noteq> []" and "s \<notin> set LimitSelect_list"
    and "net trace \<lparr> req_method = ''GET'', req_url = api_url self @ url_path,
                       req_data = None \<rparr>
           = Inr \<lparr> status_code = 200, json_body = Inr (PList items) \<rparr>"
  shows "api_get_listing net rc self url_path limits (Some s) trace
           = (Inl (unsupported_mode s),
              trace @ [\<lparr> req_method = ''GET'', req_url = api_url self @ url_path,
                         req_data = None \<rparr>])"
  using assms api_client_get_200 [of net trace self url_path
      "\<lparr> status_code = 200, json_body = Inr (PList items) \<rparr>"]
  by (simp add: api_get_listing_def bind_op_def
      return_op_def raise_op_def lift_op_def limit_reduce_unsupported)

lemma api_get_roles_unsupported:
  assumes "limits_truthy limits" and "s \<noteq> []" and "s \<notin> set LimitSelect_list"
    and "net trace \<lparr> req_method = ''GET'', req_url = api_url self @ ''security/roles'',
                       req_data = None \<rparr>
           = Inr \<lparr> status_code = 200, json_body = Inr (PList items) \<rparr>"
  shows "api_get_roles net rc self xl xd limits (Some s) trace
           = (Inl (unsupported_mode s),
              trace @ [\<lparr> req_method = ''GET'', req_url = api_url self @ ''security/roles'',
                         req_data = None \<rparr>])"
  using assms api_client_get_200 [of net trace self "''security/roles''"
      "\<lparr> status_code = 200, json_body = Inr (PList items) \<rparr>"]
  by (simp add: api_get_roles_def bind_op_def
      return_op_def raise_op_def lift_op_def limit_reduce_unsupported)

text \<open>
  Claim C8, as stated: the error for a strategy outside the five is raised before any
  remote call of the listing operation. It fails at \<^verbatim>\<open>api_get_repos\<close> with the rule \<^verbatim>\<open>a\<close>
  and the strategy \<^verbatim>\<open>fuzzy\<close>, on a server that answers 200 with an empty list: the
  operation raises the error, and by then it has issued the \<^verbatim>\<open>GET\<close> of the listing.
\<close>

theorem C8_counterexample:
  "api_get_repos (net_ok (PList [])) literal_regex nexus_live (LimList [''a''])
     (Some ''fuzzy'') []
   = (Inl (Nexus3CtlException
            (''Unsupported mode '' @ [CHR 0x27] @ ''fuzzy'' @ [CHR 0x27] @
             '', please choose one of: exact,contains,startswith,endswith,regex'')),
      [\<lparr> req_method = ''GET'', req_url = ''http://nexus/service/rest/v1/repositories'',
         req_data = None \<rparr>])"
  by (simp add: api_get_repos_def api_get_listing_def api_client_get bind_op_def issue_def
      check_401_def return_op_def raise_op_def lift_op_def net_ok_def nexus_live_def
      limit_reduce_def split_limits_def select_or_exact_def matched_items_def
      unsupported_mode_def LimitSelect_list_def)

text \<open>
  Claim C8, amended. With a rule list that is not empty and a strategy name that is not
  empty and not one of \<^verbatim>\<open>exact\<close>, \<^verbatim>\<open>contains\<close>, \<^verbatim>\<open>startswith\<close>, \<^verbatim>\<open>endswith\<close>, \<^verbatim>\<open>regex\<close>, the
  selector fails with a \<^verbatim>\<open>Nexus3CtlException\<close> whose message lists the five names, whatever
  the items are. A listing operation (\<^verbatim>\<open>api_get_repos\<close>, \<^verbatim>\<open>api_get_ldaps\<close>,
  \<^verbatim>\<open>api_get_realms\<close>, \<^verbatim>\<open>api_get_roles\<close>) fails with that error after its listing \<^verbatim>\<open>GET\<close> has
  been issued and has been answered with status 200 and a JSON list: the one remote call
  of the operation comes before the error.
\<close>

theorem C8_unsupported_strategy_after_listing:
  assumes "limits_truthy limits" and "s \<noteq> []" and "s \<notin> set LimitSelect_list"
    and "\<And>req. net trace req = Inr \<lparr> status_code = 200, json_body = Inr (PList items) \<rparr>"
  shows "limit_reduce rc (PList items) key limits '','' (Some s) = Inl (unsupported_mode s) \<and>
         (\<exists>msg. unsupported_mode s = Nexus3CtlException msg \<and>
                (\<forall>n \<in> set LimitSelect_list. sublist n msg)) \<and>
         api_get_repos net rc self limits (Some s) trace
           = (Inl (unsupported_mode s),
              trace @ [\<lparr> req_method = ''GET'', req_url = api_url self @ ''repositories'',
                         req_data = None \<rparr>]) \<and>
         api_get_ldaps net rc self limits (Some s) trace
           = (Inl (unsupported_mode s),
              trace @ [\<lparr> req_method = ''GET'', req_url = api_url self @ ''security/ldap'',
                         req_data = None \<rparr>]) \<and>
         api_get_realms net rc self limits (Some s) trace
           = (Inl (unsupported_mode s),
              trace @ [\<lparr> req_method = ''GET'',
                         req_url = api_url self @ ''security/realms/active'',
                         req_data = None \<rparr>]) \<and>
         api_get_roles net rc self exclude_ldap exclude_default limits (Some s) trace
           = (Inl (unsupported_mode s),
              trace @ [\<lparr> req_method = ''GET'', req_url = api_url self @ ''security/roles'',
                         req_data = None \<rparr>])"
proof (intro conjI)
  show "limit_reduce rc (PList items) key limits '','' (Some s) = Inl (unsupported_mode s)"
    using assms(1-3) by (rule limit_reduce_unsupported)
  show "\<exists>msg. unsupported_mode s = Nexus3CtlException msg \<and>
               (\<forall>n \<in> set LimitSelect_list. sublist n msg)"
    by (rule unsupported_mode_lists_names)
  show "api_get_repos net rc self limits (Some s) trace
          = (Inl (unsupported_mode s),
             trace @ [\<lparr> req_method = ''GET'', req_url = api_url self @ ''repositories'',
                        req_data = None \<rparr>])"
    unfolding api_get_repos_def using assms(1-3) assms(4) by (rule api_get_listing_unsupported)
  show "api_get_ldaps net rc self limits (Some s) trace
          = (Inl (unsupported_mode s),
             trace @ [\<lparr> req_method = ''GET'', req_url = api_url self @ ''security/ldap'',
                        req_data = None \<rparr>])"
    unfolding api_get_ldaps_def using assms(1-3) assms(4) by (rule api_get_listing_unsupported)
  show "api_get_realms net rc self limits (Some s) trace
          = (Inl (unsupported_mode s),
             trace @ [\<lparr> req_method = ''GET'',
                        req_url = api_url self @ ''security/realms/active'',
                        req_data = None \<rparr>])"
    unfolding api_get_realms_def using assms(1-3) assms(4) by (rule api_get_listing_unsupported)
  show "api_get_roles net rc self exclude_ldap exclude_default limits (Some s) trace
          = (Inl (unsupported_mode s),
             trace @ [\<lparr> req_method = ''GET'', req_url = api_url self @ ''security/roles'',
                        req_data = None \<rparr>])"
    using assms(1-3) assms(4) by (rule api_get_roles_unsupported)
qed

text \<open>The theorem on the server that answers every call with 200 and an empty list, for
  the rule string \<^verbatim>\<open>a,b\<close> and the strategy \<^verbatim>\<open>fuzzy\<close>.\<close>

theorem C8_unsupported_strategy_after_listing_witness:
  "limits_truthy (LimStr ''a,b'') \<and> ''fuzzy'' \<noteq> [] \<and> ''fuzzy'' \<notin> set LimitSelect_list \<and>
   net_ok (PList []) [] \<lparr> req_method = ''GET'',
       req_url = ''http://nexus/service/rest/v1/security/ldap'', req_data = None \<rparr>
     = Inr \<lparr> status_code = 200, json_body = Inr (PList []) \<rparr> \<and>
   api_get_ldaps (net_ok (PList [])) literal_regex nexus_live (LimStr ''a,b'')
     (Some ''fuzzy'') []
   = (Inl (unsupported_mode ''fuzzy''),
      [\<lparr> req_method = ''GET'', req_url = ''http://nexus/service/rest/v1/security/ldap'',
         req_data = None \<rparr>])"
proof -
  have h1: "limits_truthy (LimStr ''a,b'')" by simp
  have h2: "''fuzzy'' \<noteq> []" by simp
  have h3: "''fuzzy'' \<notin> set LimitSelect_list" by (simp add: LimitSelect_list_def)
  have h4: "\<And>req. net_ok (PList []) [] req
              = Inr \<lparr> status_code = 200, json_body = Inr (PList []) \<rparr>"
    by (simp add: net_ok_def)
  note t = C8_unsupported_strategy_after_listing
    [where limits = "LimStr ''a,b''" and s = "''fuzzy''" and net = "net_ok (PList [])"
       and trace = "[]" and items = "[]" and rc = literal_regex and self = nexus_live,
     OF h1 h2 h3 h4]
  have "api_get_ldaps (net_ok (PList [])) literal_regex nexus_live (LimStr ''a,b'')
          (Some ''fuzzy'') []
        = (Inl (unsupported_mode ''fuzzy''),
           [] @ [\<lparr> req_method = ''GET'', req_url = api_url nexus_live @ ''security/ldap'',
                    req_data = None \<rparr>])"
    using t by blast
  then show ?thesis
    using h1 h2 h3 h4 by (simp add: nexus_live_def)
qed

section \<open>The toggle-list resolver\<close>

subsection \<open>The loop against the walk of the specification\<close>

text \<open>As long as \<^verbatim>\<open>out\<close> is a list of its own, one pass of the loop is one step of the
  specification's walk, for every token but \<^verbatim>\<open>ALL\<close>.\<close>

lemma control_step_own:
  "t \<noteq> ''ALL'' \<Longrightarrow> control_step t (d, Own xs) = (d, Own (resolve_step d0 t xs))"
  by (auto simp: control_step_def resolve_step_def Let_def remove1_idem)

text \<open>Once \<^verbatim>\<open>out\<close> is the \<^verbatim>\<open>defaults\<close> object, a pass of the loop changes that object.\<close>

lemma control_step_shared:
  "t \<noteq> ''ALL'' \<Longrightarrow> t \<noteq> ''NONE'' \<Longrightarrow>
   control_step t (d, Shared) = (resolve_step d0 t d, Shared)"
  by (auto simp: control_step_def resolve_step_def Let_def remove1_idem)

lemma fold_own_no_ALL:
  "''ALL'' \<notin> set ts \<Longrightarrow>
   fold control_step ts (d, Own xs) = (d, Own (fold (resolve_step d0) ts xs))"
proof (induction ts arbitrary: xs)
  case Nil
  show ?case by simp
next
  case (Cons t ts)
  then have "t \<noteq> ''ALL''" "''ALL'' \<notin> set ts" by auto
  then show ?case using Cons.IH by (simp add: control_step_own [where ?d0.0 = d0])
qed

lemma fold_shared_no_ALL:
  "''ALL'' \<notin> set ts \<Longrightarrow>
   out_value (fold control_step ts (d, Shared)) = fold (resolve_step d0) ts d"
proof (induction ts arbitrary: d)
  case Nil
  show ?case by simp
next
  case (Cons t ts)
  then have t: "t \<noteq> ''ALL''" and ts: "''ALL'' \<notin> set ts" by auto
  show ?case
  proof (cases "t = ''NONE''")
    case True
    have "control_step t (d, Shared) = (d, Own [])"
      using True by (simp add: control_step_def)
    moreover have "resolve_step d0 t d = []"
      using True by (simp add: resolve_step_def)
    ultimately show ?thesis
      using fold_own_no_ALL [OF ts, of d "[]" d0] by simp
  next
    case False
    then show ?thesis
      using t Cons.IH [OF ts] by (simp add: control_step_shared [where ?d0.0 = d0])
  qed
qed

lemma fold_own_one_ALL:
  "count_list ts ''ALL'' \<le> 1 \<Longrightarrow>
   out_value (fold control_step ts (d0, Own xs)) = fold (resolve_step d0) ts xs"
proof (induction ts arbitrary: xs)
  case Nil
  show ?case by simp
next
  case (Cons t ts)
  show ?case
  proof (cases "t = ''ALL''")
    case True
    then have "count_list ts ''ALL'' = 0" using Cons.prems by simp
    then have no: "''ALL'' \<notin> set ts" by (simp add: count_list_0_iff)
    have "control_step t (d0, Own xs) = (d0, Shared)"
      using True by (simp add: control_step_def)
    moreover have "resolve_step d0 t xs = d0"
      using True by (simp add: resolve_step_def)
    ultimately show ?thesis
      using fold_shared_no_ALL [OF no, of d0 d0] by simp
  next
    case False
    then have "count_list ts ''ALL'' \<le> 1" using Cons.prems by simp
    then show ?thesis
      using False Cons.IH by (simp add: control_step_own [where ?d0.0 = d0])
  qed
qed

text \<open>
  Where the token list, after the insertion of the default token, holds \<^verbatim>\<open>ALL\<close> at most
  once, the function returns what the walk of the specification returns.
\<close>

lemma control_list_single_ALL:
  assumes "control_list config defaults delim dflt = Inr r"
    and "count_list (tokens r) ''ALL'' \<le> 1"
  shows "result r = resolve_spec (tokens r) (case defaults of None \<Rightarrow> [] | Some ds \<Rightarrow> ds)"
  using assms
  by (auto simp: control_list_def Let_def resolve_spec_def fold_own_one_ALL
      split: sum.splits)

text \<open>The three examples of the specification.\<close>

lemma control_list_example_ALL:
  "control_list (CfgStr ''ALL'') (Some [''a'', ''b'', ''c'']) '','' None
     = Inr \<lparr> result = {''a'', ''b'', ''c''}, defaults_after = Some [''a'', ''b'', ''c''],
             tokens = [''ALL''] \<rparr>"
  by (simp add: control_list_def py_split_def insert_default_def control_step_def)

lemma control_list_example_NONE:
  "control_list (CfgStr ''a,-a,+b'') (Some []) '','' (Some ''NONE'')
     = Inr \<lparr> result = {''b''}, defaults_after = Some [],
             tokens = [''NONE'', ''a'', ''-a'', ''+b''] \<rparr>"
  by (simp add: control_list_def py_split_def insert_default_def control_step_def)

lemma control_list_example_remove:
  "map_sum id result (control_list (CfgStr ''-x'') (Some [''x'', ''y'']) '','' (Some ''ALL''))
     = Inr {''y''}"
  by (simp add: control_list_def py_split_def insert_default_def control_step_def)

subsection \<open>A second \<^verbatim>\<open>ALL\<close>\<close>

text \<open>
  Claim C2. The claim is that the resolver walks the tokens from left to right, where
  \<^verbatim>\<open>ALL\<close> resets the accumulator to the defaults. At the expression \<^verbatim>\<open>ALL,-x,ALL\<close> with
  the defaults \<^verbatim>\<open>x, y\<close> and the default token \<^verbatim>\<open>ALL\<close> the function returns \<^verbatim>\<open>{y}\<close>: the
  removal of \<^verbatim>\<open>x\<close> was done on the defaults list itself, and the second \<^verbatim>\<open>ALL\<close> resets the
  accumulator to what is left of it. The walk the claim describes returns \<^verbatim>\<open>{x, y}\<close>.
\<close>

theorem C2_second_ALL_keeps_removal:
  "control_list (CfgStr ''ALL,-x,ALL'') (Some [''x'', ''y'']) '','' (Some ''ALL'')
     = Inr \<lparr> result = {''y''}, defaults_after = Some [''y''],
             tokens = [''ALL'', ''-x'', ''ALL''] \<rparr> \<and>
   resolve_spec [''ALL'', ''-x'', ''ALL''] [''x'', ''y''] = {''x'', ''y''}"
  by (simp add: control_list_def py_split_def insert_default_def control_step_def
      resolve_spec_def resolve_step_def insert_commute)

subsection \<open>The defaults argument after the call\<close>

text \<open>
  Claim C7. The claim is that \<^verbatim>\<open>ALL\<close> sets the accumulator to a copy of the defaults, so
  that the defaults argument is not modified. At the expression \<^verbatim>\<open>-x\<close> with the defaults
  \<^verbatim>\<open>x, y\<close> and the default token \<^verbatim>\<open>ALL\<close> the function returns \<^verbatim>\<open>{y}\<close>, and the caller's
  defaults list, which held \<^verbatim>\<open>x\<close> and \<^verbatim>\<open>y\<close>, holds \<^verbatim>\<open>y\<close> alone after the call.
\<close>

theorem C7_defaults_modified:
  "control_list (CfgStr ''-x'') (Some [''x'', ''y'']) '','' (Some ''ALL'')
     = Inr \<lparr> result = {''y''}, defaults_after = Some [''y''],
             tokens = [''ALL'', ''-x''] \<rparr>"
  by (simp add: control_list_def py_split_def insert_default_def control_step_def)

subsection \<open>The insertion of the default token\<close>

text \<open>
  Claim C6, as stated: the default token is prepended if and only if it is not already
  the first token. It fails at the token list \<^verbatim>\<open>a, ALL\<close> with the default token \<^verbatim>\<open>ALL\<close>:
  the first token is \<^verbatim>\<open>a\<close>, yet nothing is prepended.
\<close>

theorem C6_counterexample:
  "hd [''a'', ''ALL''] \<noteq> ''ALL'' \<and>
   control_list (CfgList [''a'', ''ALL'']) None '','' (Some ''ALL'')
     = Inr \<lparr> result = {}, defaults_after = None, tokens = [''a'', ''ALL''] \<rparr> \<and>
   [''a'', ''ALL''] \<noteq> ''ALL'' # [''a'', ''ALL'']"
  by (simp add: control_list_def insert_default_def control_step_def)

text \<open>
  Claim C6, amended. For every token list and every default token that is not null, the
  function returns normally, and the token list it walks is the given one with the
  default token prepended if and only if the default token occurs nowhere in the given
  list; when it occurs anywhere, first or not, the list is walked as given.
\<close>

theorem C6_default_token_inserted_unless_present:
  "\<exists>r. control_list (CfgList toks) defaults delim (Some d) = Inr r \<and>
        tokens r = (if d \<in> set toks then toks else d # toks) \<and>
        (tokens r = d # toks) = (d \<notin> set toks)"
  by (simp add: control_list_def insert_default_def Let_def)

section \<open>Import ordering\<close>

subsection \<open>Repositories\<close>

lemma sorted_key_positions:
  assumes "sorted (map k xs)" and "i < length xs" and "j < length xs"
    and "k (xs ! i) < k (xs ! j)"
  shows "i < j"
proof (rule ccontr)
  assume "\<not> i < j"
  then have "j \<le> i" by simp
  then have "map k xs ! j \<le> map k xs ! i"
    using assms(1,2) by (simp add: sorted_nth_mono del: nth_map)
  then show False using assms by simp
qed

text \<open>
  Claim C5. For every list of repository file names, in any order, the order in which
  \<^verbatim>\<open>cli_import_repos\<close> takes them is a rearrangement of the list in which every file whose
  name contains \<^verbatim>\<open>hosted\<close> stands before every file whose name does not, and every file
  whose name contains \<^verbatim>\<open>proxy\<close> stands before every file whose name contains neither
  \<^verbatim>\<open>hosted\<close> nor \<^verbatim>\<open>proxy\<close>.
\<close>

theorem C5_repos_import_order:
  "mset (repos_import_order files) = mset files \<and>
   (\<forall>i < length files. \<forall>j < length files.
      (sublist ''hosted'' (repos_import_order files ! i) \<and>
       \<not> sublist ''hosted'' (repos_import_order files ! j) \<longrightarrow> i < j) \<and>
      (sublist ''proxy'' (repos_import_order files ! i) \<and>
       \<not> sublist ''hosted'' (repos_import_order files ! j) \<and>
       \<not> sublist ''proxy'' (repos_import_order files ! j) \<longrightarrow> i < j))"
proof -
  let ?res = "repos_import_order files"
  have srt: "sorted (map nexus_sort_repos ?res)" by (simp add: repos_import_order_def)
  have len: "length ?res = length files" by (simp add: repos_import_order_def)
  have pos: "i < j" if "i < length files" "j < length files"
      "nexus_sort_repos (?res ! i) < nexus_sort_repos (?res ! j)" for i j
    using sorted_key_positions [OF srt] that len by simp
  have a: "i < j" if "i < length files" "j < length files" "sublist ''hosted'' (?res ! i)"
      "\<not> sublist ''hosted'' (?res ! j)" for i j
  proof -
    have "nexus_sort_repos (?res ! i) = 1" using that by (simp add: nexus_sort_repos_def)
    moreover have "2 \<le> nexus_sort_repos (?res ! j)"
      using that by (simp add: nexus_sort_repos_def)
    ultimately show ?thesis using pos [OF that(1,2)] by simp
  qed
  have b: "i < j" if "i < length files" "j < length files" "sublist ''proxy'' (?res ! i)"
      "\<not> sublist ''hosted'' (?res ! j)" "\<not> sublist ''proxy'' (?res ! j)" for i j
  proof -
    have "nexus_sort_repos (?res ! i) \<le> 2" using that by (simp add: nexus_sort_repos_def)
    moreover have "nexus_sort_repos (?res ! j) = 3"
      using that by (simp add: nexus_sort_repos_def)
    ultimately show ?thesis using pos [OF that(1,2)] by simp
  qed
  have "mset ?res = mset files" by (simp add: repos_import_order_def)
  then show ?thesis using a b by blast
qed

text \<open>The theorem on a group, a proxy and a hosted repository, given in that order.\<close>

theorem C5_repos_import_order_witness:
  "mset (repos_import_order
      [''out/repos/maven2-group__public.json'', ''out/repos/maven2-proxy__central.json'',
       ''out/repos/maven2-hosted__releases.json''])
     = mset [''out/repos/maven2-group__public.json'', ''out/repos/maven2-proxy__central.json'',
             ''out/repos/maven2-hosted__releases.json''] \<and>
   repos_import_order
      [''out/repos/maven2-group__public.json'', ''out/repos/maven2-proxy__central.json'',
       ''out/repos/maven2-hosted__releases.json'']
     = [''out/repos/maven2-hosted__releases.json'', ''out/repos/maven2-proxy__central.json'',
        ''out/repos/maven2-group__public.json'']"
proof -
  note t = C5_repos_import_order
    [of "[''out/repos/maven2-group__public.json'', ''out/repos/maven2-proxy__central.json'',
          ''out/repos/maven2-hosted__releases.json'']"]
  have m: "mset (repos_import_order
      [''out/repos/maven2-group__public.json'', ''out/repos/maven2-proxy__central.json'',
       ''out/repos/maven2-hosted__releases.json''])
     = mset [''out/repos/maven2-group__public.json'', ''out/repos/maven2-proxy__central.json'',
             ''out/repos/maven2-hosted__releases.json'']"
    using t by (rule conjunct1)
  have e: "repos_import_order
      [''out/repos/maven2-group__public.json'', ''out/repos/maven2-proxy__central.json'',
       ''out/repos/maven2-hosted__releases.json'']
     = [''out/repos/maven2-hosted__releases.json'', ''out/repos/maven2-proxy__central.json'',
        ''out/repos/maven2-group__public.json'']"
    by (simp add: repos_import_order_def nexus_sort_repos_def sublist_code)
  show ?thesis using m e by (rule conjI)
qed

subsection \<open>Roles\<close>

lemma mapE_Inr:
  "mapE f xs = Inr ks \<Longrightarrow>
   ks = map (\<lambda>x. case f x of Inl e \<Rightarrow> d | Inr n \<Rightarrow> n) xs"
  by (induction xs arbitrary: ks) (auto split: sum.splits)

lemma mapE_total:
  "\<forall>x \<in> set xs. \<exists>n. f x = Inr n \<Longrightarrow> \<exists>ks. mapE f xs = Inr ks"
  by (induction xs) (auto split: sum.splits)

lemma insort_key_fst_pair:
  "insort_key fst (k x, x) (map (\<lambda>x. (k x, x)) ys)
     = map (\<lambda>x. (k x, x)) (insort_key k x ys)"
  by (induction ys) auto

lemma sort_key_pairs:
  "sort_key fst (map (\<lambda>x. (k x, x)) xs) = map (\<lambda>x. (k x, x)) (sort_key k xs)"
  by (induction xs) (simp_all add: insort_key_fst_pair)

lemma zip_map_self: "zip (map k xs) xs = map (\<lambda>x. (k x, x)) xs"
  by (induction xs) auto

text \<open>When every key can be computed, \<^verbatim>\<open>sorted\<close> is the stable sort by the key.\<close>

lemma py_sorted_Inr:
  assumes "py_sorted f xs = Inr res"
  shows "res = sort_key (\<lambda>x. case f x of Inl e \<Rightarrow> 0 | Inr n \<Rightarrow> n) xs"
proof -
  obtain ks where ks: "mapE f xs = Inr ks" and r: "res = map snd (sort_key fst (zip ks xs))"
    using assms by (auto simp: py_sorted_def split: sum.splits)
  have "ks = map (\<lambda>x. case f x of Inl e \<Rightarrow> 0 | Inr n \<Rightarrow> n) xs"
    using mapE_Inr [OF ks] by blast
  then show ?thesis
    using r by (simp add: zip_map_self sort_key_pairs comp_def)
qed

lemma roles_import_order_Inr:
  "roles_import_order items = Inr res \<Longrightarrow> res = sort_key role_score items"
  unfolding roles_import_order_def role_score_def by (rule py_sorted_Inr)

lemma roles_import_order_total:
  "\<forall>it \<in> set items. \<exists>n. nexus_sort_roles (PDict it) = Inr n \<Longrightarrow>
   \<exists>res. roles_import_order items = Inr res"
  using mapE_total [of items "\<lambda>item. nexus_sort_roles (PDict item)"]
  by (auto simp: roles_import_order_def py_sorted_def)

lemma role_score_lists:
  "map_of it ''roles'' = Some (PList rs) \<Longrightarrow> map_of it ''privileges'' = Some (PList ps) \<Longrightarrow>
   nexus_sort_roles (PDict it) = Inr (length rs * 3 + length ps) \<and>
   role_score it = length rs * 3 + length ps"
  by (simp add: role_score_def nexus_sort_roles_def py_dict_get_default_def py_len_def)

text \<open>
  Claim C9. For every list of role items whose \<^verbatim>\<open>roles\<close> and \<^verbatim>\<open>privileges\<close> have a length
  (or are missing), in any order, the order in which \<^verbatim>\<open>cli_import_roles\<close> takes them is a
  rearrangement of the list, ascending by the score: an item of a lower score stands
  before every item of a higher score. The score of an item whose \<^verbatim>\<open>roles\<close> and
  \<^verbatim>\<open>privileges\<close> are lists is \<^verbatim>\<open>len(roles) * 3 + len(privileges)\<close>. In particular an item
  with \<^verbatim>\<open>roles=[]\<close> and \<^verbatim>\<open>privileges=[]\<close> stands before every item with \<^verbatim>\<open>roles=[x]\<close> and
  \<^verbatim>\<open>privileges=[]\<close>.
\<close>

theorem C9_roles_import_order:
  assumes "\<forall>it \<in> set items. \<exists>n. nexus_sort_roles (PDict it) = Inr n"
  shows "\<exists>res. roles_import_order items = Inr res \<and> mset res = mset items \<and>
           sorted (map role_score res) \<and>
           (\<forall>i < length res. \<forall>j < length res.
              role_score (res ! i) < role_score (res ! j) \<longrightarrow> i < j) \<and>
           (\<forall>it \<in> set items. \<forall>rs ps.
              map_of it ''roles'' = Some (PList rs) \<and>
              map_of it ''privileges'' = Some (PList ps) \<longrightarrow>
              role_score it = length rs * 3 + length ps) \<and>
           (\<forall>i < length res. \<forall>j < length res.
              map_of (res ! i) ''roles'' = Some (PList []) \<and>
              map_of (res ! i) ''privileges'' = Some (PList []) \<and>
              map_of (res ! j) ''roles'' = Some (PList [x]) \<and>
              map_of (res ! j) ''privileges'' = Some (PList []) \<longrightarrow> i < j)"
proof -
  obtain res where res: "roles_import_order items = Inr res"
    using roles_import_order_total [OF assms] by blast
  have eq: "res = sort_key role_score items" using res by (rule roles_import_order_Inr)
  have srt: "sorted (map role_score res)" using eq by simp
  have ms: "mset res = mset items" using eq by simp
  have pos: "\<forall>i < length res. \<forall>j < length res.
               role_score (res ! i) < role_score (res ! j) \<longrightarrow> i < j"
    using sorted_key_positions [OF srt] by blast
  have sc: "\<forall>it \<in> set items. \<forall>rs ps.
              map_of it ''roles'' = Some (PList rs) \<and>
              map_of it ''privileges'' = Some (PList ps) \<longrightarrow>
              role_score it = length rs * 3 + length ps"
    using role_score_lists by blast
  have part: "i < j" if "i < length res" "j < length res"
      "map_of (res ! i) ''roles'' = Some (PList [])"
      "map_of (res ! i) ''privileges'' = Some (PList [])"
      "map_of (res ! j) ''roles'' = Some (PList [x])"
      "map_of (res ! j) ''privileges'' = Some (PList [])" for i j
  proof -
    have "role_score (res ! i) = 0" using role_score_lists [OF that(3,4)] by simp
    moreover have "role_score (res ! j) = 3" using role_score_lists [OF that(5,6)] by simp
    ultimately show ?thesis using pos that(1,2) by simp
  qed
  show ?thesis using res ms srt pos sc part by blast
qed

text \<open>The theorem on a role that names one nested role, followed by a role that names
  none: the second is imported first.\<close>

theorem C9_roles_import_order_witness:
  "nexus_sort_roles
     (PDict [(''id'', PStr ''b''), (''roles'', PList [PStr ''x'']), (''privileges'', PList [])])
     = Inr 3 \<and>
   nexus_sort_roles
     (PDict [(''id'', PStr ''a''), (''roles'', PList []), (''privileges'', PList [])])
     = Inr 0 \<and>
   roles_import_order
     [[(''id'', PStr ''b''), (''roles'', PList [PStr ''x'']), (''privileges'', PList [])],
      [(''id'', PStr ''a''), (''roles'', PList []), (''privileges'', PList [])]]
     = Inr [[(''id'', PStr ''a''), (''roles'', PList []), (''privileges'', PList [])],
            [(''id'', PStr ''b''), (''roles'', PList [PStr ''x'']), (''privileges'', PList [])]]"
proof -
  let ?b = "[(''id'', PStr ''b''), (''roles'', PList [PStr ''x'']), (''privileges'', PList [])]"
  let ?a = "[(''id'', PStr ''a''), (''roles'', PList []), (''privileges'', PList [])]"
  have sb: "nexus_sort_roles (PDict ?b) = Inr 3"
    by (simp add: nexus_sort_roles_def py_dict_get_default_def py_len_def)
  have sa: "nexus_sort_roles (PDict ?a) = Inr 0"
    by (simp add: nexus_sort_roles_def py_dict_get_default_def py_len_def)
  have h: "\<forall>it \<in> set [?b, ?a]. \<exists>n. nexus_sort_roles (PDict it) = Inr n"
    using sa sb by simp
  obtain res where res: "roles_import_order [?b, ?a] = Inr res"
      and pos: "\<forall>i < length res. \<forall>j < length res.
                  role_score (res ! i) < role_score (res ! j) \<longrightarrow> i < j"
    using C9_roles_import_order [OF h] by blast
  have "roles_import_order [?b, ?a] = Inr [?a, ?b]"
    by (simp add: roles_import_order_def py_sorted_def nexus_sort_roles_def
        py_dict_get_default_def py_len_def)
  then show ?thesis using sa sb res by simp
qed

section \<open>Dry mode\<close>

subsection \<open>Operations that issue nothing but \<^verbatim>\<open>GET\<close> calls\<close>

lemma gets_only_return: "gets_only (return_op x)"
  by (simp add: gets_only_def return_op_def)

lemma gets_only_raise: "gets_only (raise_op e)"
  by (simp add: gets_only_def raise_op_def)

lemma gets_only_lift: "gets_only (lift_op r)"
  by (cases r) (simp_all add: lift_op_def gets_only_return gets_only_raise)

lemma gets_only_bind:
  assumes "gets_only m" and "\<And>x. gets_only (f x)"
  shows "gets_only (bind_op m f)"
  unfolding gets_only_def
proof
  fix trace
  obtain n1 where n1: "snd (m trace) = trace @ n1" "list_all is_get n1"
    using assms(1) unfolding gets_only_def by blast
  show "\<exists>new. snd (bind_op m f trace) = trace @ new \<and> list_all is_get new"
  proof (cases "fst (m trace)")
    case (Inl e)
    then have "bind_op m f trace = (Inl e, trace @ n1)"
      using n1(1) by (cases "m trace") (simp add: bind_op_def)
    then show ?thesis using n1(2) by simp
  next
    case (Inr x)
    then have eq: "bind_op m f trace = f x (trace @ n1)"
      using n1(1) by (cases "m trace") (simp add: bind_op_def)
    obtain n2 where n2: "snd (f x (trace @ n1)) = (trace @ n1) @ n2" "list_all is_get n2"
      using assms(2) [of x] unfolding gets_only_def by blast
    have "snd (bind_op m f trace) = trace @ (n1 @ n2)" using eq n2(1) by simp
    moreover have "list_all is_get (n1 @ n2)" using n1(2) n2(2) by simp
    ultimately show ?thesis by blast
  qed
qed

lemma gets_only_if: "gets_only a \<Longrightarrow> gets_only b \<Longrightarrow> gets_only (if c then a else b)"
  by simp

lemma gets_only_for_each: "(\<And>x. gets_only (f x)) \<Longrightarrow> gets_only (for_each f xs)"
  by (induction xs) (simp_all add: gets_only_return gets_only_bind)

lemma gets_only_check_401: "gets_only (check_401 out)"
  by (simp add: check_401_def gets_only_return gets_only_raise)

lemma gets_only_issue_get:
  "gets_only (issue net \<lparr> req_method = ''GET'', req_url = url, req_data = d \<rparr>)"
  by (simp add: gets_only_def issue_def is_get_def)

text \<open>A \<^verbatim>\<open>GET\<close> through the client is a \<^verbatim>\<open>GET\<close> on the wire, in either mode.\<close>

lemma gets_only_api_client_get: "gets_only (api_client net self url_path ''GET'' data dry)"
  by (simp add: api_client_def Let_def gets_only_bind gets_only_issue_get gets_only_check_401)

text \<open>In dry mode, whatever the verb asked for, the client issues a \<^verbatim>\<open>GET\<close> or nothing.\<close>

lemma gets_only_api_client_dry:
  "dry_mode self \<Longrightarrow> gets_only (api_client net self url_path method data None)"
  by (simp add: api_client_def Let_def gets_only_bind gets_only_issue_get gets_only_check_401)

lemmas gets_only_intros =
  gets_only_return gets_only_raise gets_only_lift gets_only_bind gets_only_for_each
  gets_only_api_client_get gets_only_if

lemma gets_only_api_get_listing:
  "gets_only (api_get_listing net rc self url_path limits select)"
  unfolding api_get_listing_def by (intro gets_only_intros)

lemma gets_only_api_get_roles:
  "gets_only (api_get_roles net rc self exclude_ldap exclude_default limits select)"
  unfolding api_get_roles_def by (intro gets_only_intros)

lemma gets_only_api_get_one: "gets_only (api_get_one net self url_path)"
  unfolding api_get_one_def by (intro gets_only_intros)

lemma gets_only_api_get_repo: "gets_only (api_get_repo net render self name fmt typ)"
  unfolding api_get_repo_def Let_def by (intro gets_only_intros gets_only_api_get_one)

lemma gets_only_api_get_role: "gets_only (api_get_role net render self ident)"
  unfolding api_get_role_def by (rule gets_only_api_get_one)

lemma gets_only_api_get_ldap: "gets_only (api_get_ldap net render self ident)"
  unfolding api_get_ldap_def by (rule gets_only_api_get_one)

lemma gets_only_api_set_repo:
  "dry_mode self \<Longrightarrow> gets_only (api_set_repo net render self config)"
  unfolding api_set_repo_def Let_def
  by (simp add: gets_only_intros gets_only_api_get_repo)

lemma gets_only_api_set_role:
  "dry_mode self \<Longrightarrow> gets_only (api_set_role net render self config ident)"
  unfolding api_set_role_def
  by (simp add: gets_only_intros gets_only_api_get_role)

lemma gets_only_api_set_ldap:
  "dry_mode self \<Longrightarrow> gets_only (api_set_ldap net render self config ident)"
  unfolding api_set_ldap_def
  by (simp add: gets_only_intros gets_only_api_get_ldap)

lemma gets_only_api_set_realms:
  "dry_mode self \<Longrightarrow> gets_only (api_set_realms net self config)"
  unfolding api_set_realms_def
  by (simp add: gets_only_intros)

lemma gets_only_cli_import_realms:
  "dry_mode self \<Longrightarrow> gets_only (cli_import_realms net self store)"
  unfolding cli_import_realms_def
  by (simp add: gets_only_intros gets_only_api_set_realms split: list.splits)

lemma gets_only_cli_import_ldap:
  "dry_mode self \<Longrightarrow> gets_only (cli_import_ldap net render self store)"
  unfolding cli_import_ldap_def
  by (simp add: gets_only_intros gets_only_api_set_ldap)

lemma gets_only_cli_import_roles:
  "dry_mode self \<Longrightarrow> gets_only (cli_import_roles net render self store)"
  unfolding cli_import_roles_def
  by (simp add: gets_only_intros gets_only_api_set_role)

lemma gets_only_cli_import_repos:
  "dry_mode self \<Longrightarrow> gets_only (cli_import_repos net render self store)"
  unfolding cli_import_repos_def
  by (simp add: gets_only_intros gets_only_api_set_repo)

lemma gets_only_cli_import:
  "dry_mode self \<Longrightarrow> gets_only (cli_import net render self store types)"
  unfolding cli_import_def
  by (simp add: gets_only_intros gets_only_cli_import_repos gets_only_cli_import_roles
      gets_only_cli_import_ldap gets_only_cli_import_realms)

lemma api_client_dry_fake:
  "dry_mode self \<Longrightarrow> method \<noteq> ''GET'' \<Longrightarrow>
   api_client net self url_path method data None trace = (Inr (FakeResponse 200), trace)"
  by (simp add: api_client_def check_401_def FakeResponse_def return_op_def)

lemma api_client_dry_get:
  "dry_mode self \<Longrightarrow>
   snd (api_client net self url_path ''GET'' data None trace)
     = trace @ [\<lparr> req_method = ''GET'', req_url = api_url self @ url_path,
                   req_data = None \<rparr>]"
  by (simp add: api_client_def bind_op_def issue_def check_401_def return_op_def raise_op_def
      split: sum.splits)

subsection \<open>A \<^verbatim>\<open>GET\<close> is performed for real\<close>

text \<open>A \<^verbatim>\<open>GET\<close> through the client goes out in either mode, and what comes back is the
  answer of the server (or the exception for status 401).\<close>

lemma api_client_get_real:
  "api_client net self url_path ''GET'' data dry trace =
     ((case net trace \<lparr> req_method = ''GET'', req_url = api_url self @ url_path,
                          req_data = None \<rparr> of
         Inl e \<Rightarrow> Inl e
       | Inr resp \<Rightarrow>
           if status_code resp = 401
           then Inl (Nexus3CtlException ''Could not authenticate against API, got 401'')
           else Inr resp),
      trace @ [\<lparr> req_method = ''GET'', req_url = api_url self @ url_path,
                  req_data = None \<rparr>])"
  by (simp add: api_client_get bind_op_def issue_def check_401_def return_op_def raise_op_def
      split: sum.splits)

lemma snd_bind_op_keep:
  "(\<And>x t. snd (f x t) = t) \<Longrightarrow> snd (bind_op m f trace) = snd (m trace)"
  by (cases "m trace") (auto simp: bind_op_def split: sum.splits)

lemma snd_return_op: "snd (return_op x t) = t"
  by (simp add: return_op_def)

lemma snd_lift_op: "snd (lift_op r t) = t"
  by (cases r) (simp_all add: lift_op_def return_op_def raise_op_def)

lemma snd_bind_pure:
  "(\<And>t. snd (m t) = t) \<Longrightarrow> (\<And>x t. snd (f x t) = t) \<Longrightarrow> snd (bind_op m f trace) = trace"
  by (simp add: snd_bind_op_keep)

text \<open>Each listing operation issues exactly one call, the \<^verbatim>\<open>GET\<close> of its collection,
  whatever the mode, the answer and the rules are.\<close>

lemma api_get_listing_trace:
  "snd (api_get_listing net rc self url_path limits select trace)
     = trace @ [\<lparr> req_method = ''GET'', req_url = api_url self @ url_path,
                   req_data = None \<rparr>]"
  unfolding api_get_listing_def
  by (subst snd_bind_op_keep)
     (auto simp: api_client_get_real snd_return_op snd_lift_op snd_bind_pure)

lemma api_get_roles_trace:
  "snd (api_get_roles net rc self exclude_ldap exclude_default limits select trace)
     = trace @ [\<lparr> req_method = ''GET'', req_url = api_url self @ ''security/roles'',
                   req_data = None \<rparr>]"
  unfolding api_get_roles_def
  by (subst snd_bind_op_keep)
     (auto simp: api_client_get_real snd_return_op snd_lift_op snd_bind_pure)

text \<open>Fetching one item issues exactly one \<^verbatim>\<open>GET\<close> and returns the decoded answer of the
  server when its status is 200, the empty dictionary for any other status but 401.\<close>

lemma api_get_one_real:
  "api_get_one net self url_path trace =
     ((case net trace \<lparr> req_method = ''GET'', req_url = api_url self @ url_path,
                          req_data = None \<rparr> of
         Inl e \<Rightarrow> Inl e
       | Inr resp \<Rightarrow>
           if status_code resp = 401
           then Inl (Nexus3CtlException ''Could not authenticate against API, got 401'')
           else if status_code resp = 200 then json_body resp
           else Inr (PDict [])),
      trace @ [\<lparr> req_method = ''GET'', req_url = api_url self @ url_path,
                  req_data = None \<rparr>])"
  by (simp add: api_get_one_def api_client_get_real bind_op_def lift_op_def return_op_def
      raise_op_def split: sum.splits)

subsection \<open>What the setters report in dry mode\<close>

text \<open>The setters of repositories, roles and LDAP endpoints make up a response of a status
  that they read as a success: whenever they return, the report is not a failure.\<close>

lemma api_set_repo_dry:
  assumes "dry_mode self" and "api_set_repo net render self config trace = (Inr r, t')"
  shows "r = Created \<or> r = Updated"
  using assms
  by (auto simp: api_set_repo_def bind_op_def return_op_def raise_op_def lift_op_def
      FakeResponse_def Let_def split: sum.splits prod.splits if_splits)

lemma api_set_role_dry:
  assumes "dry_mode self" and "api_set_role net render self config ident trace = (Inr r, t')"
  shows "r = Created \<or> r = Updated"
  using assms
  by (auto simp: api_set_role_def bind_op_def return_op_def raise_op_def lift_op_def
      FakeResponse_def split: sum.splits prod.splits if_splits)

lemma api_set_ldap_dry:
  assumes "dry_mode self" and "api_set_ldap net render self config ident trace = (Inr r, t')"
  shows "r = Created \<or> r = NotUpdatable"
  using assms
  by (auto simp: api_set_ldap_def bind_op_def return_op_def raise_op_def lift_op_def
      FakeResponse_def split: sum.splits prod.splits if_splits)

text \<open>The setter of the realms makes up a response of status 200 and reads 204 as the
  success: in dry mode it reports a failure, always, and issues nothing.\<close>

lemma api_set_realms_dry:
  "dry_mode self \<Longrightarrow> api_set_realms net self realms trace = (Inr Failed, trace)"
  by (simp add: api_set_realms_def bind_op_def return_op_def FakeResponse_def)

subsection \<open>No mutating call in dry mode\<close>

text \<open>
  When dry mode is enabled, the client (called, as every operation calls it, without the
  \<^verbatim>\<open>dry\<close> argument) issues a real \<^verbatim>\<open>GET\<close> for the verb \<^verbatim>\<open>GET\<close>, and for every other verb
  issues nothing and returns the made-up response of status 200. The setters, the four
  importers and the command \<^verbatim>\<open>import\<close> then issue nothing but \<^verbatim>\<open>GET\<close> calls, whatever the
  server answers and whatever the target directory holds. The listing and fetching
  operations issue nothing but \<^verbatim>\<open>GET\<close> calls in either mode.
\<close>

lemma dry_mode_issues_only_gets:
  assumes "dry_mode self"
  shows "(if verb = ''GET''
          then snd (api_client net self url_path verb data None trace)
                 = trace @ [\<lparr> req_method = ''GET'', req_url = api_url self @ url_path,
                               req_data = None \<rparr>]
          else api_client net self url_path verb data None trace
                 = (Inr (FakeResponse 200), trace)) \<and>
         gets_only (api_client net self url_path verb data None) \<and>
         gets_only (api_set_repo net render self config) \<and>
         gets_only (api_set_role net render self config ident) \<and>
         gets_only (api_set_ldap net render self config ident) \<and>
         gets_only (api_set_realms net self realms) \<and>
         gets_only (cli_import_repos net render self store) \<and>
         gets_only (cli_import_roles net render self store) \<and>
         gets_only (cli_import_ldap net render self store) \<and>
         gets_only (cli_import_realms net self store) \<and>
         gets_only (cli_import net render self store types) \<and>
         gets_only (api_get_repos net rc self limits select) \<and>
         gets_only (api_get_ldaps net rc self limits select) \<and>
         gets_only (api_get_realms net rc self limits select) \<and>
         gets_only (api_get_roles net rc self exclude_ldap exclude_default limits select) \<and>
         gets_only (api_get_repo net render self name repo_format repo_type) \<and>
         gets_only (api_get_role net render self ident) \<and>
         gets_only (api_get_ldap net render self ident)"
proof (intro conjI)
  show "if verb = ''GET''
        then snd (api_client net self url_path verb data None trace)
               = trace @ [\<lparr> req_method = ''GET'', req_url = api_url self @ url_path,
                             req_data = None \<rparr>]
        else api_client net self url_path verb data None trace
               = (Inr (FakeResponse 200), trace)"
    using assms by (simp add: api_client_dry_fake api_client_dry_get)
  show "gets_only (api_client net self url_path verb data None)"
    using assms by (rule gets_only_api_client_dry)
  show "gets_only (api_set_repo net render self config)"
    using assms by (rule gets_only_api_set_repo)
  show "gets_only (api_set_role net render self config ident)"
    using assms by (rule gets_only_api_set_role)
  show "gets_only (api_set_ldap net render self config ident)"
    using assms by (rule gets_only_api_set_ldap)
  show "gets_only (api_set_realms net self realms)"
    using assms by (rule gets_only_api_set_realms)
  show "gets_only (cli_import_repos net render self store)"
    using assms by (rule gets_only_cli_import_repos)
  show "gets_only (cli_import_roles net render self store)"
    using assms by (rule gets_only_cli_import_roles)
  show "gets_only (cli_import_ldap net render self store)"
    using assms by (rule gets_only_cli_import_ldap)
  show "gets_only (cli_import_realms net self store)"
    using assms by (rule gets_only_cli_import_realms)
  show "gets_only (cli_import net render self store types)"
    using assms by (rule gets_only_cli_import)
  show "gets_only (api_get_repos net rc self limits select)"
    unfolding api_get_repos_def by (rule gets_only_api_get_listing)
  show "gets_only (api_get_ldaps net rc self limits select)"
    unfolding api_get_ldaps_def by (rule gets_only_api_get_listing)
  show "gets_only (api_get_realms net rc self limits select)"
    unfolding api_get_realms_def by (rule gets_only_api_get_listing)
  show "gets_only (api_get_roles net rc self exclude_ldap exclude_default limits select)"
    by (rule gets_only_api_get_roles)
  show "gets_only (api_get_repo net render self name repo_format repo_type)"
    by (rule gets_only_api_get_repo)
  show "gets_only (api_get_role net render self ident)"
    by (rule gets_only_api_get_role)
  show "gets_only (api_get_ldap net render self ident)"
    by (rule gets_only_api_get_ldap)
qed

text \<open>
  The command \<^verbatim>\<open>import\<close> with the types \<^verbatim>\<open>ALL\<close>, in dry mode, over a target directory with
  two repositories, a role, an LDAP endpoint and the realms file, against a server that
  answers every call with 200: six calls go out, all of them \<^verbatim>\<open>GET\<close>, and a \<^verbatim>\<open>POST\<close>
  through the client goes nowhere.
\<close>

lemma dry_mode_import_example:
  "dry_mode nexus_dry \<and>
   gets_only (cli_import (net_ok repo_body) render_none nexus_dry store_one ''ALL'') \<and>
   api_client (net_ok repo_body) nexus_dry ''security/ldap'' ''POST'' (Some (PDict [])) None []
     = (Inr (FakeResponse 200), []) \<and>
   map req_method
     (snd (cli_import (net_ok repo_body) render_none nexus_dry store_one ''ALL'' []))
     = [''GET'', ''GET'', ''GET'', ''GET'', ''GET'', ''GET'']"
proof -
  have h: "dry_mode nexus_dry" by (simp add: nexus_dry_def)
  note t = dry_mode_issues_only_gets
    [OF h, where net = "net_ok repo_body" and render = render_none and store = store_one
       and types = "''ALL''" and verb = "''POST''" and url_path = "''security/ldap''"
       and data = "Some (PDict [])" and trace = "[]"]
  have a: "gets_only (cli_import (net_ok repo_body) render_none nexus_dry store_one ''ALL'')"
    using t by blast
  have b: "api_client (net_ok repo_body) nexus_dry ''security/ldap'' ''POST''
             (Some (PDict [])) None [] = (Inr (FakeResponse 200), [])"
    using t by simp
  have c: "map req_method
     (snd (cli_import (net_ok repo_body) render_none nexus_dry store_one ''ALL'' []))
     = [''GET'', ''GET'', ''GET'', ''GET'', ''GET'', ''GET'']"
    by (simp add: cli_import_def control_list_def py_split_def insert_default_def
        control_step_def ResourceTypes_list_def bind_op_def lift_op_def return_op_def
        raise_op_def store_one_def cli_import_repos_def repos_import_order_def
        nexus_sort_repos_def sublist_code api_set_repo_def api_get_repo_def api_get_one_def
        api_client_def issue_def check_401_def net_ok_def nexus_dry_def repo_body_def
        py_getitem_def py_format_def nexus_remap_format_def FakeResponse_def Let_def
        cli_import_ldap_def api_set_ldap_def api_get_ldap_def cli_import_roles_def
        roles_import_order_def py_sorted_def nexus_sort_roles_def py_dict_get_default_def
        py_len_def api_set_role_def api_get_role_def cli_import_realms_def
        api_set_realms_def)
  show ?thesis using h a b c by simp
qed

subsection \<open>The realms in dry mode\<close>

text \<open>
  Claim C4. The claim is that in dry mode every mutating call is replaced by a made-up
  response that stands for a success, while the \<^verbatim>\<open>GET\<close> calls go out. In dry mode
  \<^verbatim>\<open>api_set_realms\<close> issues nothing and makes up a response of status 200 in place of its
  \<^verbatim>\<open>PUT\<close>; it then reads that response as it reads a real one, where 204 alone is the
  success, and reports that the realms could not be set: for every server, every list of
  realms and every trace, and so for the importer of the realms over the example
  directory. The message of the success branch of \<^verbatim>\<open>api_set_realms\<close> ends with the
  dry-mode suffix, which is empty outside dry mode: the branch is written for dry mode
  and cannot be reached in it. The setter of repositories, on the same server and in
  the same mode, makes up the status 204 for a repository that exists and reports it
  updated, after the two \<^verbatim>\<open>GET\<close> calls of its lookup.
\<close>

theorem C4_dry_realms_report_failure:
  "api_set_realms net nexus_dry realms
     = bind_op (return_op (FakeResponse 200))
         (\<lambda>ret. return_op (if status_code ret = 204 then Updated else Failed)) \<and>
   api_set_realms net nexus_dry realms trace = (Inr Failed, trace) \<and>
   cli_import_realms (net_ok repo_body) nexus_dry store_one [] = (Inr [Failed], []) \<and>
   api_set_repo (net_ok repo_body) render_none nexus_dry
     [(''name'', PStr ''releases''), (''format'', PStr ''maven2''), (''type'', PStr ''hosted'')]
     []
     = (Inr Updated,
        [\<lparr> req_method = ''GET'',
            req_url = ''http://nexus/service/rest/v1/repositories/releases'',
            req_data = None \<rparr>,
         \<lparr> req_method = ''GET'',
            req_url = ''http://nexus/service/rest/v1/repositories/maven/hosted/releases'',
            req_data = None \<rparr>])"
proof (intro conjI)
  show "api_set_realms net nexus_dry realms
          = bind_op (return_op (FakeResponse 200))
              (\<lambda>ret. return_op (if status_code ret = 204 then Updated else Failed))"
    by (simp add: api_set_realms_def nexus_dry_def)
  show "api_set_realms net nexus_dry realms trace = (Inr Failed, trace)"
    by (simp add: api_set_realms_def nexus_dry_def bind_op_def return_op_def FakeResponse_def)
  show "cli_import_realms (net_ok repo_body) nexus_dry store_one [] = (Inr [Failed], [])"
    by (simp add: cli_import_realms_def store_one_def api_set_realms_def nexus_dry_def
        bind_op_def lift_op_def return_op_def FakeResponse_def)
  show "api_set_repo (net_ok repo_body) render_none nexus_dry
     [(''name'', PStr ''releases''), (''format'', PStr ''maven2''), (''type'', PStr ''hosted'')]
     []
     = (Inr Updated,
        [\<lparr> req_method = ''GET'',
            req_url = ''http://nexus/service/rest/v1/repositories/releases'',
            req_data = None \<rparr>,
         \<lparr> req_method = ''GET'',
            req_url = ''http://nexus/service/rest/v1/repositories/maven/hosted/releases'',
            req_data = None \<rparr>])"
    by (simp add: api_set_repo_def api_get_repo_def api_get_one_def api_client_def issue_def
        check_401_def net_ok_def nexus_dry_def repo_body_def bind_op_def lift_op_def
        return_op_def raise_op_def py_getitem_def py_format_def nexus_remap_format_def
        FakeResponse_def Let_def)
qed

end
